theory Spec2Isabelle
  imports Main
begin

section \<open>JavaScript values\<close>

text \<open>
  The manager keeps its credentials in dynamically typed fields and decides by
  truthiness (\<^verbatim>\<open>!this.accessToken\<close>, \<^verbatim>\<open>data.accessToken || null\<close>), so the
  values are modelled with their JavaScript kinds. Numbers are the integers and
  \<open>NaN\<close>: every number the manager computes with is a time in milliseconds or
  a number of seconds. There are no fractions and no infinities, and the
  integers are not rounded, so the arithmetic is that of JavaScript up to
  \<open>2^53\<close> in absolute value. Arrays and functions are not values of this
  model; callbacks are kept apart (see \<open>callback\<close>).
\<close>

datatype jsnum = NaN | Fin int

datatype jsval =
    JUndefined
  | JNull
  | JBool bool
  | JNum jsnum
  | JStr string
  | JObj "(string \<times> jsval) list"

text \<open>ToBoolean: what \<^verbatim>\<open>if (v)\<close>, \<^verbatim>\<open>!v\<close> and \<^verbatim>\<open>v || w\<close> test.\<close>

fun truthy :: "jsval \<Rightarrow> bool" where
  "truthy JUndefined = False"
| "truthy JNull = False"
| "truthy (JBool b) = b"
| "truthy (JNum NaN) = False"
| "truthy (JNum (Fin n)) = (n \<noteq> 0)"
| "truthy (JStr s) = (s \<noteq> [])"
| "truthy (JObj fs) = True"

text \<open>\<^verbatim>\<open>a || b\<close>\<close>

definition js_or :: "jsval \<Rightarrow> jsval \<Rightarrow> jsval" where
  "js_or a b = (if truthy a then a else b)"

text \<open>
  Errors thrown by the code (\<open>Error\<close>, with the message the code gives) or
  by the platform (the others; their wording differs between engines).
\<close>

datatype error =
    Error string
  | TypeError string
  | RangeError string
  | SyntaxError string
  | QuotaExceededError string

text \<open>
  Property access \<^verbatim>\<open>v.k\<close>, for the keys the code reads (none of them is a
  property of a prototype): a TypeError on \<open>null\<close> and \<open>undefined\<close>,
  \<open>undefined\<close> when the property is missing.
\<close>

fun get_prop :: "jsval \<Rightarrow> string \<Rightarrow> error + jsval" where
  "get_prop JUndefined k = Inl (TypeError (''Cannot read properties of undefined (reading '' @ k @ '')''))"
| "get_prop JNull k = Inl (TypeError (''Cannot read properties of null (reading '' @ k @ '')''))"
| "get_prop (JObj fs) k = Inr (case map_of fs k of None \<Rightarrow> JUndefined | Some v \<Rightarrow> v)"
| "get_prop v k = Inr JUndefined"

subsection \<open>Numbers and strings\<close>

definition digit_char :: "nat \<Rightarrow> char" where
  "digit_char d = ''0123456789'' ! (d mod 10)"

fun string_of_nat :: "nat \<Rightarrow> string" where
  "string_of_nat n =
     (if n < 10 then [digit_char n] else string_of_nat (n div 10) @ [digit_char (n mod 10)])"

declare string_of_nat.simps [simp del]

definition string_of_int :: "int \<Rightarrow> string" where
  "string_of_int i = (if i < 0 then CHR ''-'' # string_of_nat (nat (- i)) else string_of_nat (nat i))"

text \<open>
  ToString, as string concatenation and property keys apply it. An integer is
  written with all its digits, as JavaScript writes it below \<open>10^21\<close>.
\<close>

fun ToString :: "jsval \<Rightarrow> string" where
  "ToString JUndefined = ''undefined''"
| "ToString JNull = ''null''"
| "ToString (JBool b) = (if b then ''true'' else ''false'')"
| "ToString (JNum NaN) = ''NaN''"
| "ToString (JNum (Fin n)) = string_of_int n"
| "ToString (JStr s) = s"
| "ToString (JObj fs) = ''[object Object]''"

definition is_digit :: "char \<Rightarrow> bool" where
  "is_digit c = (c \<in> set ''0123456789'')"

definition digit_val :: "char \<Rightarrow> nat" where
  "digit_val c = of_char c - 48"

definition nat_of_digits :: "string \<Rightarrow> nat" where
  "nat_of_digits ds = foldl (\<lambda>a c. 10 * a + digit_val c) 0 ds"

definition is_space :: "char \<Rightarrow> bool" where
  "is_space c = (of_char c \<in> {9, 10, 11, 12, 13, 32 :: nat})"

definition trim :: "string \<Rightarrow> string" where
  "trim s = rev (dropWhile is_space (rev (dropWhile is_space s)))"

definition digits_to_num :: "string \<Rightarrow> jsnum" where
  "digits_to_num ds = (if ds \<noteq> [] \<and> list_all is_digit ds then Fin (int (nat_of_digits ds)) else NaN)"

text \<open>
  StringToNumber on the integer literals: surrounding white space is dropped,
  the empty string is 0, a sign may precede the digits. A string that is no
  decimal integer literal is \<open>NaN\<close> here, also the fractions, exponents and
  hexadecimal literals that JavaScript reads as numbers.
\<close>

definition StringToNumber :: "string \<Rightarrow> jsnum" where
  "StringToNumber s =
     (case trim s of
        [] \<Rightarrow> Fin 0
      | c # cs \<Rightarrow>
          if c = CHR ''-'' then (case digits_to_num cs of NaN \<Rightarrow> NaN | Fin n \<Rightarrow> Fin (- n))
          else if c = CHR ''+'' then digits_to_num cs
          else digits_to_num (c # cs))"

text \<open>ToNumber, as the arithmetic operators apply it.\<close>

fun ToNumber :: "jsval \<Rightarrow> jsnum" where
  "ToNumber JUndefined = NaN"
| "ToNumber JNull = Fin 0"
| "ToNumber (JBool b) = Fin (if b then 1 else 0)"
| "ToNumber (JNum n) = n"
| "ToNumber (JStr s) = StringToNumber s"
| "ToNumber (JObj fs) = NaN"

text \<open>Arithmetic and comparison: \<open>NaN\<close> absorbs, and compares false.\<close>

fun js_add :: "jsnum \<Rightarrow> jsnum \<Rightarrow> jsnum" where
  "js_add (Fin a) (Fin b) = Fin (a + b)"
| "js_add _ _ = NaN"

fun js_sub :: "jsnum \<Rightarrow> jsnum \<Rightarrow> jsnum" where
  "js_sub (Fin a) (Fin b) = Fin (a - b)"
| "js_sub _ _ = NaN"

fun js_mul :: "jsnum \<Rightarrow> jsnum \<Rightarrow> jsnum" where
  "js_mul (Fin a) (Fin b) = Fin (a * b)"
| "js_mul _ _ = NaN"

fun js_less :: "jsnum \<Rightarrow> jsnum \<Rightarrow> bool" where
  "js_less (Fin a) (Fin b) = (a < b)"
| "js_less _ _ = False"

fun js_less_eq :: "jsnum \<Rightarrow> jsnum \<Rightarrow> bool" where
  "js_less_eq (Fin a) (Fin b) = (a \<le> b)"
| "js_less_eq _ _ = False"

text \<open>\<^verbatim>\<open>Math.floor(x / d)\<close> for a positive integer \<open>d\<close>.\<close>

fun js_floor_div :: "jsnum \<Rightarrow> int \<Rightarrow> jsnum" where
  "js_floor_div (Fin a) d = Fin (a div d)"
| "js_floor_div NaN d = NaN"

section \<open>Dates\<close>

text \<open>
  A time value is a number of milliseconds since the epoch, valid up to
  8.64e15 in absolute value. \<open>civil_from_days\<close> turns a day number into a
  proleptic Gregorian date, \<open>days_from_civil\<close> is its inverse.
\<close>

definition civil_from_days :: "int \<Rightarrow> int \<times> int \<times> int" where
  "civil_from_days z =
     (let z1 = z + 719468;
          era = z1 div 146097;
          doe = z1 - era * 146097;
          yoe = (doe - doe div 1460 + doe div 36524 - doe div 146096) div 365;
          doy = doe - (365 * yoe + yoe div 4 - yoe div 100);
          mp = (5 * doy + 2) div 153;
          d = doy - (153 * mp + 2) div 5 + 1;
          m = (if mp < 10 then mp + 3 else mp - 9);
          y = yoe + era * 400 + (if m \<le> 2 then 1 else 0)
      in (y, m, d))"

definition days_from_civil :: "int \<Rightarrow> int \<Rightarrow> int \<Rightarrow> int" where
  "days_from_civil y m d =
     (let y1 = (if m \<le> 2 then y - 1 else y);
          era = y1 div 400;
          yoe = y1 - era * 400;
          doy = (153 * (if m > 2 then m - 3 else m + 9) + 2) div 5 + d - 1;
          doe = yoe * 365 + yoe div 4 - yoe div 100 + doy
      in era * 146097 + doe - 719468)"

definition pad2 :: "int \<Rightarrow> string" where
  "pad2 n = [digit_char (nat n div 10), digit_char (nat n)]"

definition pad3 :: "int \<Rightarrow> string" where
  "pad3 n = [digit_char (nat n div 100), digit_char (nat n div 10), digit_char (nat n)]"

definition pad4 :: "int \<Rightarrow> string" where
  "pad4 n = digit_char (nat n div 1000) # pad3 n"

definition pad6 :: "int \<Rightarrow> string" where
  "pad6 n = [digit_char (nat n div 100000), digit_char (nat n div 10000)] @ pad4 n"

definition year_string :: "int \<Rightarrow> string" where
  "year_string y =
     (if 0 \<le> y \<and> y \<le> 9999 then pad4 y
      else (if y < 0 then CHR ''-'' else CHR ''+'') # pad6 (abs y))"

text \<open>The text \<^verbatim>\<open>toISOString\<close> writes for a valid time value.\<close>

definition iso_string :: "int \<Rightarrow> string" where
  "iso_string t =
     (let ms = t mod 86400000;
          (y, m, d) = civil_from_days (t div 86400000)
      in year_string y @ ''-'' @ pad2 m @ ''-'' @ pad2 d @ ''T'' @
         pad2 (ms div 3600000) @ '':'' @ pad2 (ms div 60000 mod 60) @ '':'' @
         pad2 (ms div 1000 mod 60) @ ''.'' @ pad3 (ms mod 1000) @ ''Z'')"

text \<open>TimeClip: a time value out of range is \<open>NaN\<close>.\<close>

fun TimeClip :: "jsnum \<Rightarrow> jsnum" where
  "TimeClip NaN = NaN"
| "TimeClip (Fin t) = (if abs t \<le> 8640000000000000 then Fin t else NaN)"

text \<open>\<^verbatim>\<open>new Date(x).toISOString()\<close> for a number \<open>x\<close>.\<close>

definition Date_toISOString :: "jsnum \<Rightarrow> error + string" where
  "Date_toISOString x =
     (case TimeClip x of
        NaN \<Rightarrow> Inl (RangeError ''Invalid time value'')
      | Fin t \<Rightarrow> Inr (iso_string t))"

text \<open>
  \<^verbatim>\<open>new Date(v).getTime()\<close>. What \<^verbatim>\<open>Date.parse\<close> makes of a string depends
  on the engine for every format but the one \<^verbatim>\<open>toISOString\<close> writes, so it
  is the parameter \<open>parse\<close> (\<open>NaN\<close> for a string it does not read).
\<close>

fun Date_getTime :: "(string \<Rightarrow> jsnum) \<Rightarrow> jsval \<Rightarrow> jsnum" where
  "Date_getTime parse (JStr s) = TimeClip (parse s)"
| "Date_getTime parse (JObj fs) = TimeClip (parse (ToString (JObj fs)))"
| "Date_getTime parse v = TimeClip (ToNumber v)"

definition days_in_month :: "int \<Rightarrow> int \<Rightarrow> int" where
  "days_in_month y m =
     (if m = 2 then (if y mod 4 = 0 \<and> (y mod 100 \<noteq> 0 \<or> y mod 400 = 0) then 29 else 28)
      else if m \<in> {4, 6, 9, 11} then 30 else 31)"

definition field_num :: "string \<Rightarrow> nat \<Rightarrow> nat \<Rightarrow> int" where
  "field_num s i n = int (nat_of_digits (take n (drop i s)))"

text \<open>
  A \<^verbatim>\<open>Date.parse\<close> that reads the form \<^verbatim>\<open>YYYY-MM-DDTHH:mm:ss.sssZ\<close>, which
  is what \<^verbatim>\<open>toISOString\<close> writes, and nothing else; the engines read more. It
  serves the examples only.
\<close>

definition Date_parse_iso :: "string \<Rightarrow> jsnum" where
  "Date_parse_iso s =
     (if length s = 24 \<and> map (\<lambda>i. s ! i) [4, 7, 10, 13, 16, 19, 23] = ''--T::.Z'' \<and>
         list_all (\<lambda>i. is_digit (s ! i)) [0, 1, 2, 3, 5, 6, 8, 9, 11, 12, 14, 15, 17, 18, 20, 21, 22]
      then
        (let y = field_num s 0 4; mo = field_num s 5 2; d = field_num s 8 2;
             h = field_num s 11 2; mi = field_num s 14 2; se = field_num s 17 2;
             ms = field_num s 20 3
         in if 1 \<le> mo \<and> mo \<le> 12 \<and> 1 \<le> d \<and> d \<le> days_in_month y mo \<and> mi < 60 \<and> se < 60 \<and>
               (h < 24 \<or> (h = 24 \<and> mi = 0 \<and> se = 0 \<and> ms = 0))
            then Fin (days_from_civil y mo d * 86400000 + h * 3600000 + mi * 60000 + se * 1000 + ms)
            else NaN)
      else NaN)"

section \<open>The platform: JSON, localStorage, fetch, console, timers\<close>

text \<open>
  A text kept in \<^verbatim>\<open>localStorage\<close> is either a JSON text, represented by the
  value it denotes, or some other string, which \<^verbatim>\<open>JSON.parse\<close> rejects.
\<close>

datatype payload = JsonText jsval | OtherText string

text \<open>
  What \<^verbatim>\<open>JSON.stringify\<close> keeps of a value: a property whose value is
  \<open>undefined\<close> is left out, \<open>NaN\<close> is written \<open>null\<close>.
\<close>

primrec to_json :: "jsval \<Rightarrow> jsval" where
  "to_json JUndefined = JUndefined"
| "to_json JNull = JNull"
| "to_json (JBool b) = JBool b"
| "to_json (JNum n) = (case n of NaN \<Rightarrow> JNull | Fin i \<Rightarrow> JNum (Fin i))"
| "to_json (JStr s) = JStr s"
| "to_json (JObj fs) =
     JObj (filter (\<lambda>kv. snd kv \<noteq> JUndefined) (map (map_prod id to_json) fs))"

text \<open>\<^verbatim>\<open>JSON.stringify(v)\<close>: \<open>None\<close> is the result \<open>undefined\<close>.\<close>

definition JSON_stringify :: "jsval \<Rightarrow> payload option" where
  "JSON_stringify v = (if v = JUndefined then None else Some (JsonText (to_json v)))"

fun JSON_parse :: "payload \<Rightarrow> error + jsval" where
  "JSON_parse (JsonText v) = Inr v"
| "JSON_parse (OtherText s) = Inl (SyntaxError ''Unexpected token in JSON'')"

text \<open>Truthiness of a string read from the storage: only the empty string is falsy.\<close>

fun nonempty_text :: "payload \<Rightarrow> bool" where
  "nonempty_text (JsonText v) = True"
| "nonempty_text (OtherText s) = (s \<noteq> [])"

text \<open>A request is the pair of arguments \<^verbatim>\<open>fetch(url, init)\<close> receives.\<close>

datatype request = Request jsval jsval

record response =
  status :: int
  json :: "error + jsval"

text \<open>
  A callback is a function value of the application, known by its name. Calling
  it is an event of the trace; it is taken to return, and not to call back into
  the manager.
\<close>

datatype callback = Callback string

text \<open>
  What an operation does to the outside is appended to a trace: the requests
  sent, the lines written with \<^verbatim>\<open>console.error\<close>, the callbacks invoked and
  each entry into \<^verbatim>\<open>refreshAccessToken\<close>.
\<close>

datatype event =
    Fetch request
  | ConsoleError string error
  | TokenRefreshCallback callback jsval jsval
  | TokenExpiryCallback callback error
  | RefreshAttempt

text \<open>
  A call of the \<^verbatim>\<open>async\<close> function \<^verbatim>\<open>refreshAccessToken\<close> runs up to its first
  \<^verbatim>\<open>await\<close> and hands back a promise. At that moment the promise is either
  rejected already, with the error thrown before any \<^verbatim>\<open>await\<close>, or it waits
  for the outcome of the request just sent.
\<close>

datatype async_state = Rejected error | AwaitingResponse "error + response"

text \<open>
  The world outside the manager. \<open>clock\<close> is what \<^verbatim>\<open>Date.now()\<close> reads
  (one reading for the whole of an operation);
  \<open>storage_rejects\<close> tells which writes \<^verbatim>\<open>localStorage.setItem\<close> refuses
  (a full or disabled storage); \<open>server n r\<close> is the outcome of the request
  \<open>r\<close> when \<open>n\<close> requests were sent before it; \<open>location_code\<close> is the
  \<^verbatim>\<open>code\<close> parameter of the page's address (\<open>null\<close> without one) and
  \<open>location_base\<close> its origin and path. \<open>pending\<close> holds the calls of
  \<^verbatim>\<open>refreshAccessToken\<close> that were started and not awaited, oldest first: their
  remainder runs after the operation that started them has returned.
\<close>

record world =
  clock :: int
  localStorage :: "string \<Rightarrow> payload option"
  storage_rejects :: "string \<Rightarrow> payload \<Rightarrow> bool"
  server :: "nat \<Rightarrow> request \<Rightarrow> error + response"
  trace :: "event list"
  timers :: "(nat \<times> jsval) list"
  location_code :: jsval
  location_base :: string
  pending :: "async_state list"

definition emit :: "event \<Rightarrow> world \<Rightarrow> world" where
  "emit e w = w\<lparr>trace := trace w @ [e]\<rparr>"

definition console_error :: "string \<Rightarrow> error \<Rightarrow> world \<Rightarrow> world" where
  "console_error label e w = emit (ConsoleError label e) w"

fun is_fetch :: "event \<Rightarrow> bool" where
  "is_fetch (Fetch r) = True"
| "is_fetch _ = False"

definition fetch :: "request \<Rightarrow> world \<Rightarrow> (error + response) \<times> world" where
  "fetch r w = (server w (length (filter is_fetch (trace w))) r, emit (Fetch r) w)"

definition getItem :: "string \<Rightarrow> world \<Rightarrow> payload option" where
  "getItem k w = localStorage w k"

text \<open>\<^verbatim>\<open>localStorage.setItem(k, v)\<close>; a value \<open>undefined\<close> is stored as its name.\<close>

definition setItem :: "string \<Rightarrow> payload option \<Rightarrow> world \<Rightarrow> error + world" where
  "setItem k v w =
     (let t = (case v of None \<Rightarrow> OtherText ''undefined'' | Some t \<Rightarrow> t)
      in if storage_rejects w k t then Inl (QuotaExceededError ''The quota has been exceeded'')
         else Inr (w\<lparr>localStorage := (localStorage w)(k \<mapsto> t)\<rparr>))"

definition setInterval :: "jsval \<Rightarrow> world \<Rightarrow> nat \<times> world" where
  "setInterval ms w =
     (let h = Suc (fold max (map fst (timers w)) 0)
      in (h, w\<lparr>timers := timers w @ [(h, ms)]\<rparr>))"

definition clearInterval :: "nat \<Rightarrow> world \<Rightarrow> world" where
  "clearInterval h w = w\<lparr>timers := filter (\<lambda>t. fst t \<noteq> h) (timers w)\<rparr>"

text \<open>\<^verbatim>\<open>{...a, ...b}\<close> on the properties of two objects.\<close>

fun own_props :: "jsval \<Rightarrow> (string \<times> jsval) list" where
  "own_props (JObj fs) = fs"
| "own_props (JStr s) = zip (map string_of_nat [0..<length s]) (map (\<lambda>c. JStr [c]) s)"
| "own_props v = []"

fun assign_prop :: "string \<Rightarrow> jsval \<Rightarrow> (string \<times> jsval) list \<Rightarrow> (string \<times> jsval) list" where
  "assign_prop k v [] = [(k, v)]"
| "assign_prop k v (p # ps) = (if fst p = k then (k, v) # ps else p # assign_prop k v ps)"

definition spread :: "(string \<times> jsval) list \<Rightarrow> (string \<times> jsval) list \<Rightarrow> (string \<times> jsval) list" where
  "spread a b = fold (\<lambda>kv acc. assign_prop (fst kv) (snd kv) acc) b a"

section \<open>OAuthTokenManager\<close>

text \<open>
  The class of \<^verbatim>\<open>oauth-token-manager.js\<close>. An operation is modelled as one
  uninterrupted run from call to return: an \<^verbatim>\<open>await\<close> waits for its answer
  and nothing else touches the manager meanwhile. The one call that is not
  awaited, the refresh that \<^verbatim>\<open>checkTokenExpiry\<close> starts, runs to its first
  \<^verbatim>\<open>await\<close> inside \<^verbatim>\<open>checkTokenExpiry\<close> and is left pending in the world.
  \<^verbatim>\<open>authenticate\<close>, which only builds the authorization address and navigates
  to it, is not modelled.
\<close>

record oauth =
  clientId :: jsval
  clientSecret :: jsval
  accessToken :: jsval
  refreshToken :: jsval
  tokenExpiry :: jsval
  storageKey :: jsval
  scope :: jsval
  tokenRefreshCallback :: "callback option"
  tokenExpiryCallback :: "callback option"
  refreshInterval :: "nat option"

text \<open>The constructor's \<^verbatim>\<open>config\<close>; a property left out is \<open>undefined\<close> (or no callback).\<close>

record config =
  config_clientId :: jsval
  config_clientSecret :: jsval
  config_storageKey :: jsval
  config_scope :: jsval
  onTokenRefresh :: "callback option"
  onTokenExpiry :: "callback option"

text \<open>
  \<^verbatim>\<open>startTokenExpiryCheck(intervalMs = 60000)\<close>. The timer's function calls
  \<^verbatim>\<open>checkTokenExpiry\<close> every \<open>intervalMs\<close>; the world only keeps the timer.
\<close>

definition startTokenExpiryCheck :: "jsval \<Rightarrow> oauth \<Rightarrow> world \<Rightarrow> oauth \<times> world" where
  "startTokenExpiryCheck intervalMs m w =
     (let ms = (if intervalMs = JUndefined then JNum (Fin 60000) else intervalMs);
          w1 = (case refreshInterval m of None \<Rightarrow> w | Some h \<Rightarrow> clearInterval h w);
          (h, w2) = setInterval ms w1
      in (m\<lparr>refreshInterval := Some h\<rparr>, w2))"

definition stopTokenExpiryCheck :: "oauth \<Rightarrow> world \<Rightarrow> oauth \<times> world" where
  "stopTokenExpiryCheck m w =
     (case refreshInterval m of
        None \<Rightarrow> (m, w)
      | Some h \<Rightarrow> (m\<lparr>refreshInterval := None\<rparr>, clearInterval h w))"

definition new_OAuthTokenManager :: "config \<Rightarrow> world \<Rightarrow> oauth \<times> world" where
  "new_OAuthTokenManager cfg w =
     startTokenExpiryCheck JUndefined
       \<lparr> clientId = js_or (config_clientId cfg) JNull,
         clientSecret = js_or (config_clientSecret cfg) JNull,
         accessToken = JNull,
         refreshToken = JNull,
         tokenExpiry = JNull,
         storageKey = js_or (config_storageKey cfg) (JStr ''oauth_tokens''),
         scope = js_or (config_scope cfg) (JStr ''https://www.googleapis.com/auth/spreadsheets''),
         tokenRefreshCallback = onTokenRefresh cfg,
         tokenExpiryCallback = onTokenExpiry cfg,
         refreshInterval = None \<rparr> w"

text \<open>A later read \<^verbatim>\<open>data.k\<close> of a value whose first property read did not throw.\<close>

definition field :: "jsval \<Rightarrow> string \<Rightarrow> jsval" where
  "field data k = (case get_prop data k of Inl e \<Rightarrow> JUndefined | Inr v \<Rightarrow> v)"

definition loadFromStorage :: "oauth \<Rightarrow> world \<Rightarrow> bool \<times> oauth \<times> world" where
  "loadFromStorage m w =
     (case getItem (ToString (storageKey m)) w of
        None \<Rightarrow> (False, m, w)
      | Some stored \<Rightarrow>
          if nonempty_text stored then
            (case JSON_parse stored of
               Inl e \<Rightarrow> (False, m, console_error ''Error loading OAuth data from storage:'' e w)
             | Inr data \<Rightarrow>
                 (case get_prop data ''clientId'' of
                    Inl e \<Rightarrow> (False, m, console_error ''Error loading OAuth data from storage:'' e w)
                  | Inr cid \<Rightarrow>
                      (True,
                       m\<lparr>clientId := js_or cid (clientId m),
                         clientSecret := js_or (field data ''clientSecret'') (clientSecret m),
                         accessToken := js_or (field data ''accessToken'') JNull,
                         refreshToken := js_or (field data ''refreshToken'') JNull,
                         tokenExpiry := js_or (field data ''tokenExpiry'') JNull\<rparr>,
                       w)))
          else (False, m, w))"

text \<open>The record \<^verbatim>\<open>saveToStorage\<close> writes.\<close>

definition stored_record :: "oauth \<Rightarrow> jsval" where
  "stored_record m =
     JObj [(''clientId'', clientId m),
           (''clientSecret'', clientSecret m),
           (''accessToken'', accessToken m),
           (''refreshToken'', refreshToken m),
           (''tokenExpiry'', tokenExpiry m)]"

definition saveToStorage :: "oauth \<Rightarrow> world \<Rightarrow> bool \<times> world" where
  "saveToStorage m w =
     (case setItem (ToString (storageKey m)) (JSON_stringify (stored_record m)) w of
        Inl e \<Rightarrow> (False, console_error ''Error saving OAuth data to storage:'' e w)
      | Inr w' \<Rightarrow> (True, w'))"

text \<open>
  The POST to the token endpoint. \<^verbatim>\<open>URLSearchParams\<close> keeps each value as
  a string.
\<close>

definition URLSearchParams :: "(string \<times> jsval) list \<Rightarrow> jsval" where
  "URLSearchParams ps = JObj (map (\<lambda>kv. (fst kv, JStr (ToString (snd kv)))) ps)"

definition token_request :: "(string \<times> jsval) list \<Rightarrow> request" where
  "token_request ps =
     Request (JStr ''https://oauth2.googleapis.com/token'')
       (JObj [(''method'', JStr ''POST''),
              (''headers'', JObj [(''Content-Type'', JStr ''application/x-www-form-urlencoded'')]),
              (''body'', URLSearchParams ps)])"

text \<open>\<^verbatim>\<open>new Date(Date.now() + (expires_in * 1000)).toISOString()\<close>\<close>

definition expiry_string :: "world \<Rightarrow> jsval \<Rightarrow> error + string" where
  "expiry_string w expires_in =
     Date_toISOString (js_add (Fin (clock w)) (js_mul (ToNumber expires_in) (Fin 1000)))"

definition notify_refresh :: "oauth \<Rightarrow> world \<Rightarrow> world" where
  "notify_refresh m w =
     (case tokenRefreshCallback m of
        None \<Rightarrow> w
      | Some cb \<Rightarrow> emit (TokenRefreshCallback cb (accessToken m) (tokenExpiry m)) w)"

text \<open>
  The operations return their result (\<open>Inl\<close> the error thrown), the manager
  and the world as the call leaves them: a field assigned before a statement
  throws stays assigned.
\<close>

definition exchangeCodeForTokens ::
  "jsval \<Rightarrow> jsval \<Rightarrow> oauth \<Rightarrow> world \<Rightarrow> (error + jsval) \<times> oauth \<times> world" where
  "exchangeCodeForTokens code redirectUri m w =
     (if \<not> truthy (clientId m) \<or> \<not> truthy (clientSecret m) then
        (Inl (Error ''Client ID and Client Secret are required for token exchange''), m, w)
      else
        let actualRedirectUri = js_or redirectUri (JStr (location_base w));
            caught = (\<lambda>e m' w'. (Inl e, m', console_error ''Token exchange error:'' e w'))
        in case fetch (token_request
                  [(''code'', code),
                   (''client_id'', clientId m),
                   (''client_secret'', clientSecret m),
                   (''redirect_uri'', actualRedirectUri),
                   (''grant_type'', JStr ''authorization_code'')]) w of
             (Inl e, w1) \<Rightarrow> caught e m w1
           | (Inr resp, w1) \<Rightarrow>
               (case json resp of
                  Inl e \<Rightarrow> caught e m w1
                | Inr data \<Rightarrow>
                    (case get_prop data ''access_token'' of
                       Inl e \<Rightarrow> caught e m w1
                     | Inr token \<Rightarrow>
                         if truthy token then
                           let m1 = m\<lparr>accessToken := token\<rparr>;
                               m2 = m1\<lparr>refreshToken := field data ''refresh_token''\<rparr>
                           in (case expiry_string w1 (field data ''expires_in'') of
                                 Inl e \<Rightarrow> caught e m2 w1
                               | Inr expiry \<Rightarrow>
                                   let m3 = m2\<lparr>tokenExpiry := JStr expiry\<rparr>;
                                       w2 = snd (saveToStorage m3 w1);
                                       w3 = notify_refresh m3 w2
                                   in (Inr (JObj [(''accessToken'', accessToken m3),
                                                  (''refreshToken'', refreshToken m3),
                                                  (''tokenExpiry'', tokenExpiry m3)]), m3, w3))
                         else
                           caught (Error (ToString (js_or (field data ''error'') (JStr ''Failed to get tokens''))))
                             m w1)))"

text \<open>
  \<^verbatim>\<open>refreshAccessToken\<close> in two parts. \<open>refreshAccessToken_start\<close> is the
  body up to \<^verbatim>\<open>await fetch(...)\<close>: the test of the credentials and the
  sending of the request. \<open>refreshAccessToken_resume\<close> is the rest, run with
  the outcome of the request on the manager as it then is. A caller that awaits
  the call runs one after the other.
\<close>

definition refreshAccessToken_start :: "oauth \<Rightarrow> world \<Rightarrow> async_state \<times> world" where
  "refreshAccessToken_start m w0 =
     (let w = emit RefreshAttempt w0 in
      if \<not> truthy (refreshToken m) \<or> \<not> truthy (clientId m) \<or> \<not> truthy (clientSecret m) then
        (Rejected (Error ''Cannot refresh token: missing required credentials''), w)
      else
        case fetch (token_request
                  [(''client_id'', clientId m),
                   (''client_secret'', clientSecret m),
                   (''refresh_token'', refreshToken m),
                   (''grant_type'', JStr ''refresh_token'')]) w of
          (r, w1) \<Rightarrow> (AwaitingResponse r, w1))"

definition refreshAccessToken_resume ::
  "async_state \<Rightarrow> oauth \<Rightarrow> world \<Rightarrow> (error + jsval) \<times> oauth \<times> world" where
  "refreshAccessToken_resume p m w1 =
     (let caught = (\<lambda>e m' w'. (Inl e, m', console_error ''Token refresh error:'' e w'))
      in case p of
           Rejected e \<Rightarrow> (Inl e, m, w1)
         | AwaitingResponse (Inl e) \<Rightarrow> caught e m w1
         | AwaitingResponse (Inr resp) \<Rightarrow>
             (case json resp of
                Inl e \<Rightarrow> caught e m w1
              | Inr data \<Rightarrow>
                  (case get_prop data ''access_token'' of
                     Inl e \<Rightarrow> caught e m w1
                   | Inr token \<Rightarrow>
                       if truthy token then
                         let m1 = m\<lparr>accessToken := token\<rparr>
                         in (case expiry_string w1 (field data ''expires_in'') of
                               Inl e \<Rightarrow> caught e m1 w1
                             | Inr expiry \<Rightarrow>
                                 let m2 = m1\<lparr>tokenExpiry := JStr expiry\<rparr>;
                                     w2 = snd (saveToStorage m2 w1);
                                     w3 = notify_refresh m2 w2
                                 in (Inr (accessToken m2), m2, w3))
                       else
                         caught (Error (ToString (js_or (field data ''error'') (JStr ''Failed to refresh token''))))
                           m w1)))"

definition refreshAccessToken :: "oauth \<Rightarrow> world \<Rightarrow> (error + jsval) \<times> oauth \<times> world" where
  "refreshAccessToken m w =
     (case refreshAccessToken_start m w of (p, w1) \<Rightarrow> refreshAccessToken_resume p m w1)"

record expiry_info =
  expired :: bool
  timeLeft :: jsnum
  minutesLeft :: jsnum

text \<open>
  \<^verbatim>\<open>checkTokenExpiry\<close> does not await the refresh it starts: inside the
  window it runs \<^verbatim>\<open>refreshAccessToken\<close> up to its first \<^verbatim>\<open>await\<close>, leaves
  the promise pending and returns; the manager is as before.
\<close>

definition checkTokenExpiry ::
  "(string \<Rightarrow> jsnum) \<Rightarrow> oauth \<Rightarrow> world \<Rightarrow> expiry_info option \<times> world" where
  "checkTokenExpiry parse m w =
     (if \<not> truthy (tokenExpiry m) \<or> \<not> truthy (refreshToken m) then (None, w)
      else
        let now = Fin (clock w);
            expiry = Date_getTime parse (tokenExpiry m);
            left = js_sub expiry now;
            w' = (if js_less left (Fin (5 * 60 * 1000)) \<and> js_less (Fin 0) left
                  then (case refreshAccessToken_start m w of
                          (p, w1) \<Rightarrow> w1\<lparr>pending := pending w1 @ [p]\<rparr>)
                  else w)
        in (Some \<lparr> expired = js_less_eq left (Fin 0),
                    timeLeft = left,
                    minutesLeft = js_floor_div left 60000 \<rparr>, w'))"

text \<open>
  What becomes of a pending \<^verbatim>\<open>this.refreshAccessToken().catch(...)\<close>: the rest
  of the refresh runs, and an error it ends with goes to the handler, which
  logs it and calls \<^verbatim>\<open>tokenExpiryCallback\<close> if there is one.
\<close>

definition autoRefresh :: "async_state \<Rightarrow> oauth \<Rightarrow> world \<Rightarrow> oauth \<times> world" where
  "autoRefresh p m w =
     (case refreshAccessToken_resume p m w of
        (Inl e, m', w') \<Rightarrow>
          (m', let w2 = console_error ''Auto-refresh failed:'' e w'
               in case tokenExpiryCallback m' of
                    None \<Rightarrow> w2
                  | Some cb \<Rightarrow> emit (TokenExpiryCallback cb e) w2)
      | (Inr token, m', w') \<Rightarrow> (m', w'))"

text \<open>The event loop takes the oldest pending call and runs it to its end.\<close>

definition run_pending :: "oauth \<Rightarrow> world \<Rightarrow> oauth \<times> world" where
  "run_pending m w =
     (case pending w of
        [] \<Rightarrow> (m, w)
      | p # ps \<Rightarrow> autoRefresh p m (w\<lparr>pending := ps\<rparr>))"

definition updateCredentials :: "jsval \<Rightarrow> jsval \<Rightarrow> oauth \<Rightarrow> world \<Rightarrow> oauth \<times> world" where
  "updateCredentials cid secret m w =
     (let m' = m\<lparr>clientId := cid, clientSecret := secret\<rparr>
      in (m', snd (saveToStorage m' w)))"

record status_info =
  hasAccessToken :: bool
  hasRefreshToken :: bool
  isAuthenticated :: bool
  canAutoRefresh :: bool
  status_tokenExpiry :: jsval
  expiryInfo :: "expiry_info option"

definition getStatus :: "(string \<Rightarrow> jsnum) \<Rightarrow> oauth \<Rightarrow> world \<Rightarrow> status_info \<times> world" where
  "getStatus parse m w =
     (let (info, w') = checkTokenExpiry parse m w
      in (\<lparr> hasAccessToken = truthy (accessToken m),
             hasRefreshToken = truthy (refreshToken m),
             isAuthenticated =
               (truthy (accessToken m) \<and> (case info of None \<Rightarrow> True | Some i \<Rightarrow> \<not> expired i)),
             canAutoRefresh = (truthy (refreshToken m) \<and> truthy (clientSecret m)),
             status_tokenExpiry = tokenExpiry m,
             expiryInfo = info \<rparr>, w'))"

definition clearTokens :: "oauth \<Rightarrow> world \<Rightarrow> oauth \<times> world" where
  "clearTokens m w =
     (let m' = m\<lparr>accessToken := JNull, refreshToken := JNull, tokenExpiry := JNull\<rparr>
      in (m', snd (saveToStorage m' w)))"

definition getAuthHeaders :: "oauth \<Rightarrow> error + jsval" where
  "getAuthHeaders m =
     (if \<not> truthy (accessToken m) then Inl (Error ''No access token available'')
      else Inr (JObj [(''Authorization'', JStr (''Bearer '' @ ToString (accessToken m)))]))"

text \<open>\<^verbatim>\<open>{...options, headers: {...options.headers, ...authHeaders}}\<close>\<close>

definition request_init :: "jsval \<Rightarrow> jsval \<Rightarrow> jsval \<Rightarrow> jsval" where
  "request_init options headers authHeaders =
     JObj (assign_prop ''headers'' (JObj (spread (own_props headers) (own_props authHeaders)))
             (own_props options))"

definition makeAuthenticatedRequest ::
  "jsval \<Rightarrow> jsval \<Rightarrow> oauth \<Rightarrow> world \<Rightarrow> (error + response) \<times> oauth \<times> world" where
  "makeAuthenticatedRequest url options0 m w =
     (let options = (if options0 = JUndefined then JObj [] else options0);
          caught = (\<lambda>e m' w'. (Inl e, m', console_error ''Authenticated request error:'' e w'))
      in case get_prop options ''headers'' of
           Inl e \<Rightarrow> caught e m w
         | Inr headers \<Rightarrow>
             (case getAuthHeaders m of
                Inl e \<Rightarrow> caught e m w
              | Inr auth \<Rightarrow>
                  (case fetch (Request url (request_init options headers auth)) w of
                     (Inl e, w1) \<Rightarrow> caught e m w1
                   | (Inr resp, w1) \<Rightarrow>
                       if status resp = 401 \<and> truthy (refreshToken m) then
                         (case refreshAccessToken m w1 of
                            (Inl e, m2, w2) \<Rightarrow> caught e m2 w2
                          | (Inr token, m2, w2) \<Rightarrow>
                              (case getAuthHeaders m2 of
                                 Inl e \<Rightarrow> caught e m2 w2
                               | Inr auth2 \<Rightarrow>
                                   (case fetch (Request url (request_init options headers auth2)) w2 of
                                      (r, w3) \<Rightarrow> (r, m2, w3))))
                       else (Inr resp, m, w1))))"

definition handleAuthCallback ::
  "jsval \<Rightarrow> oauth \<Rightarrow> world \<Rightarrow> (error + bool) \<times> oauth \<times> world" where
  "handleAuthCallback redirectUri m w =
     (let code = location_code w in
      if \<not> truthy code then (Inr False, m, w)
      else
        (case exchangeCodeForTokens code redirectUri m w of
           (Inl e, m', w') \<Rightarrow> (Inl e, m', console_error ''Error handling auth callback:'' e w')
         | (Inr tokens, m', w') \<Rightarrow> (Inr True, m', w'\<lparr>location_code := JNull\<rparr>)))"

section \<open>StorageManager\<close>

text \<open>The key-value store of \<^verbatim>\<open>storage-credentials-manager.js\<close>: construction, key, save, load.\<close>

record StorageManager =
  namespace :: jsval
  encryption :: jsval
  credentialKeys :: "jsval list"

record storage_config =
  config_namespace :: jsval
  config_encryption :: jsval
  config_credentialKeys :: "jsval list option"

definition new_StorageManager :: "storage_config \<Rightarrow> StorageManager" where
  "new_StorageManager cfg =
     \<lparr> namespace = js_or (config_namespace cfg) (JStr ''app''),
       encryption = js_or (config_encryption cfg) (JBool False),
       credentialKeys = (case config_credentialKeys cfg of None \<Rightarrow> [] | Some ks \<Rightarrow> ks) \<rparr>"

definition getKey :: "StorageManager \<Rightarrow> jsval \<Rightarrow> string" where
  "getKey sm key = ToString (namespace sm) @ ''_'' @ ToString key"

definition save :: "StorageManager \<Rightarrow> jsval \<Rightarrow> jsval \<Rightarrow> world \<Rightarrow> bool \<times> world" where
  "save sm key data w =
     (let storageKey = getKey sm key;
          dataStr = JSON_stringify data
      in case setItem storageKey dataStr w of
           Inl e \<Rightarrow> (False, console_error (''Error saving '' @ ToString key @ '':'') e w)
         | Inr w' \<Rightarrow> (True, w'))"

definition load :: "StorageManager \<Rightarrow> jsval \<Rightarrow> jsval \<Rightarrow> world \<Rightarrow> jsval \<times> world" where
  "load sm key defaultValue0 w =
     (let defaultValue = (if defaultValue0 = JUndefined then JNull else defaultValue0);
          storageKey = getKey sm key
      in case getItem storageKey w of
           None \<Rightarrow> (defaultValue, w)
         | Some dataStr \<Rightarrow>
             if \<not> nonempty_text dataStr then (defaultValue, w)
             else
               (case JSON_parse dataStr of
                  Inl e \<Rightarrow> (defaultValue, console_error (''Error loading '' @ ToString key @ '':'') e w)
                | Inr v \<Rightarrow> (v, w)))"

section \<open>Properties and example states\<close>

text \<open>A field is present when it is truthy: the code tests nothing else.\<close>

definition present :: "jsval \<Rightarrow> bool" where
  "present v = truthy v"

text \<open>The data model's invariant: access token and expiry are set or cleared together.\<close>

definition token_invariant :: "oauth \<Rightarrow> bool" where
  "token_invariant m = (present (accessToken m) = present (tokenExpiry m))"

text \<open>
  The values JSON can write: no \<open>undefined\<close> and no \<open>NaN\<close>, at any depth.
\<close>

fun json_value :: "jsval \<Rightarrow> bool" where
  "json_value JUndefined = False"
| "json_value (JNum NaN) = False"
| "json_value (JObj fs) = list_all (\<lambda>kv. json_value (snd kv)) fs"
| "json_value v = True"

text \<open>The events an operation added to the trace.\<close>

definition new_events :: "world \<Rightarrow> world \<Rightarrow> event list" where
  "new_events w w' = drop (length (trace w)) (trace w')"

text \<open>The requests that carry an \<^verbatim>\<open>Authorization\<close> header.\<close>

fun authorized :: "event \<Rightarrow> bool" where
  "authorized (Fetch (Request u i)) =
     (case field (field i ''headers'') ''Authorization'' of JUndefined \<Rightarrow> False | _ \<Rightarrow> True)"
| "authorized _ = False"

text \<open>
  A transport that answers the \<open>n\<close>-th request with the \<open>n\<close>-th entry of a
  script, and fails when the script is used up.
\<close>

definition scripted :: "(error + response) list \<Rightarrow> nat \<Rightarrow> request \<Rightarrow> error + response" where
  "scripted rs n r = (if n < length rs then rs ! n else Inl (TypeError ''Failed to fetch''))"

definition respond :: "int \<Rightarrow> jsval \<Rightarrow> error + response" where
  "respond code body = Inr \<lparr> status = code, json = Inr body \<rparr>"

text \<open>A world at 2024-01-01T00:00:00.000Z with an empty storage that takes every write.\<close>

definition example_world :: "(error + response) list \<Rightarrow> world" where
  "example_world rs =
     \<lparr> clock = 1704067200000,
       localStorage = Map.empty,
       storage_rejects = (\<lambda>k t. False),
       server = scripted rs,
       trace = [],
       timers = [(1, JNum (Fin 60000))],
       location_code = JNull,
       location_base = ''https://app.example/callback'',
       pending = [] \<rparr>"

text \<open>A manager holding a token that expires in two minutes.\<close>

definition example_manager :: oauth where
  "example_manager =
     \<lparr> clientId = JStr ''abc'',
       clientSecret = JStr ''xyz'',
       accessToken = JStr ''AT1'',
       refreshToken = JStr ''RT1'',
       tokenExpiry = JStr ''2024-01-01T00:02:00.000Z'',
       storageKey = JStr ''oauth_tokens'',
       scope = JStr ''https://www.googleapis.com/auth/spreadsheets'',
       tokenRefreshCallback = Some (Callback ''onTokenRefresh''),
       tokenExpiryCallback = None,
       refreshInterval = Some 1 \<rparr>"

text \<open>
  The answer of the transport to the next request, and the requests the two
  token operations send.
\<close>

definition next_response :: "world \<Rightarrow> request \<Rightarrow> error + response" where
  "next_response w r = server w (length (filter is_fetch (trace w))) r"

definition refresh_request :: "oauth \<Rightarrow> request" where
  "refresh_request m =
     token_request
       [(''client_id'', clientId m),
        (''client_secret'', clientSecret m),
        (''refresh_token'', refreshToken m),
        (''grant_type'', JStr ''refresh_token'')]"

definition exchange_request :: "jsval \<Rightarrow> jsval \<Rightarrow> oauth \<Rightarrow> world \<Rightarrow> request" where
  "exchange_request code redirectUri m w =
     token_request
       [(''code'', code),
        (''client_id'', clientId m),
        (''client_secret'', clientSecret m),
        (''redirect_uri'', js_or redirectUri (JStr (location_base w))),
        (''grant_type'', JStr ''authorization_code'')]"

text \<open>
  The request \<^verbatim>\<open>makeAuthenticatedRequest(url, options)\<close> sends for a manager
  holding an access token, and the counts of the claims about it: the entries
  into \<^verbatim>\<open>refreshAccessToken\<close> and the requests sent with an
  \<^verbatim>\<open>Authorization\<close> header.
\<close>

definition api_request :: "jsval \<Rightarrow> jsval \<Rightarrow> oauth \<Rightarrow> request" where
  "api_request url options m =
     (let opts = (if options = JUndefined then JObj [] else options)
      in Request url (request_init opts (field opts ''headers'')
           (JObj [(''Authorization'', JStr (''Bearer '' @ ToString (accessToken m)))])))"

definition refresh_attempts :: "event list \<Rightarrow> nat" where
  "refresh_attempts es = length (filter (\<lambda>e. e = RefreshAttempt) es)"

definition request_attempts :: "event list \<Rightarrow> nat" where
  "request_attempts es = length (filter authorized es)"

text \<open>The credential record of the data model: five fields, each a string or \<open>null\<close>.\<close>

fun nullable_string :: "jsval \<Rightarrow> bool" where
  "nullable_string JNull = True"
| "nullable_string (JStr s) = True"
| "nullable_string v = False"

definition credential_record :: "jsval \<Rightarrow> jsval \<Rightarrow> jsval \<Rightarrow> jsval \<Rightarrow> jsval \<Rightarrow> jsval" where
  "credential_record cid secret token refresh expiry =
     JObj [(''clientId'', cid),
           (''clientSecret'', secret),
           (''accessToken'', token),
           (''refreshToken'', refresh),
           (''expiresAt'', expiry)]"

definition example_config :: config where
  "example_config =
     \<lparr> config_clientId = JStr ''abc'',
       config_clientSecret = JStr ''xyz'',
       config_storageKey = JUndefined,
       config_scope = JUndefined,
       onTokenRefresh = Some (Callback ''onTokenRefresh''),
       onTokenExpiry = None \<rparr>"

definition example_storage :: StorageManager where
  "example_storage = \<lparr> namespace = JStr ''app'', encryption = JBool False, credentialKeys = [] \<rparr>"

section \<open>Basic facts about the platform\<close>

lemma emit_fields [simp]:
  "trace (emit e w) = trace w @ [e]"
  "localStorage (emit e w) = localStorage w"
  "storage_rejects (emit e w) = storage_rejects w"
  "server (emit e w) = server w"
  "clock (emit e w) = clock w"
  "timers (emit e w) = timers w"
  "location_code (emit e w) = location_code w"
  "location_base (emit e w) = location_base w"
  "pending (emit e w) = pending w"
  by (simp_all add: emit_def)

lemma console_error_fields [simp]:
  "trace (console_error l e w) = trace w @ [ConsoleError l e]"
  "localStorage (console_error l e w) = localStorage w"
  "storage_rejects (console_error l e w) = storage_rejects w"
  "server (console_error l e w) = server w"
  "clock (console_error l e w) = clock w"
  "pending (console_error l e w) = pending w"
  by (simp_all add: console_error_def)

lemma refreshAccessToken_unfold:
  "refreshAccessToken m w0 =
     (let w = emit RefreshAttempt w0 in
      if \<not> truthy (refreshToken m) \<or> \<not> truthy (clientId m) \<or> \<not> truthy (clientSecret m) then
        (Inl (Error ''Cannot refresh token: missing required credentials''), m, w)
      else
        let caught = (\<lambda>e m' w'. (Inl e, m', console_error ''Token refresh error:'' e w'))
        in case fetch (token_request
                  [(''client_id'', clientId m),
                   (''client_secret'', clientSecret m),
                   (''refresh_token'', refreshToken m),
                   (''grant_type'', JStr ''refresh_token'')]) w of
             (Inl e, w1) \<Rightarrow> caught e m w1
           | (Inr resp, w1) \<Rightarrow>
               (case json resp of
                  Inl e \<Rightarrow> caught e m w1
                | Inr data \<Rightarrow>
                    (case get_prop data ''access_token'' of
                       Inl e \<Rightarrow> caught e m w1
                     | Inr token \<Rightarrow>
                         if truthy token then
                           let m1 = m\<lparr>accessToken := token\<rparr>
                           in (case expiry_string w1 (field data ''expires_in'') of
                                 Inl e \<Rightarrow> caught e m1 w1
                               | Inr expiry \<Rightarrow>
                                   let m2 = m1\<lparr>tokenExpiry := JStr expiry\<rparr>;
                                       w2 = snd (saveToStorage m2 w1);
                                       w3 = notify_refresh m2 w2
                                   in (Inr (accessToken m2), m2, w3))
                         else
                           caught (Error (ToString (js_or (field data ''error'') (JStr ''Failed to refresh token''))))
                             m w1)))"
  by (simp add: refreshAccessToken_def refreshAccessToken_start_def refreshAccessToken_resume_def
      Let_def fetch_def split: sum.splits)

lemma stringify_record [simp]:
  "JSON_stringify (stored_record m) = Some (JsonText (to_json (stored_record m)))"
  by (simp add: JSON_stringify_def stored_record_def)

lemma saveToStorage_storage:
  "localStorage (snd (saveToStorage m w)) =
     (if storage_rejects w (ToString (storageKey m)) (JsonText (to_json (stored_record m)))
      then localStorage w
      else (localStorage w)(ToString (storageKey m) \<mapsto> JsonText (to_json (stored_record m))))"
  by (simp add: saveToStorage_def setItem_def)

lemma saveToStorage_trace:
  "trace (snd (saveToStorage m w)) =
     (if storage_rejects w (ToString (storageKey m)) (JsonText (to_json (stored_record m)))
      then trace w @ [ConsoleError ''Error saving OAuth data to storage:''
                        (QuotaExceededError ''The quota has been exceeded'')]
      else trace w)"
  by (simp add: saveToStorage_def setItem_def)

lemma iso_examples:
  "Date_parse_iso ''2024-01-01T00:02:00.000Z'' = Fin 1704067320000"
  "Date_parse_iso ''2020-01-01T00:00:00.000Z'' = Fin 1577836800000"
  "iso_string 1704070800000 = ''2024-01-01T01:00:00.000Z''"
  by code_simp+

section \<open>getAuthHeaders\<close>

text \<open>
  C7. For every credential state, \<^verbatim>\<open>getAuthHeaders\<close> throws (the error
  \<^verbatim>\<open>No access token available\<close>) if and only if the access token is absent,
  and with a token it returns the object whose \<^verbatim>\<open>Authorization\<close> is the
  string \<^verbatim>\<open>Bearer \<close> followed by the token.
\<close>

theorem getAuthHeaders_bearer:
  "(isl (getAuthHeaders m) \<longleftrightarrow> \<not> present (accessToken m)) \<and>
   (\<not> present (accessToken m) \<longrightarrow> getAuthHeaders m = Inl (Error ''No access token available'')) \<and>
   (present (accessToken m) \<longrightarrow>
      getAuthHeaders m = Inr (JObj [(''Authorization'', JStr (''Bearer '' @ ToString (accessToken m)))])) \<and>
   (\<forall>s. accessToken m = JStr s \<and> s \<noteq> [] \<longrightarrow>
      getAuthHeaders m = Inr (JObj [(''Authorization'', JStr (''Bearer '' @ s))]))"
  by (simp add: getAuthHeaders_def present_def)

theorem getAuthHeaders_bearer_witness:
  "present (accessToken example_manager) \<and>
   getAuthHeaders example_manager = Inr (JObj [(''Authorization'', JStr ''Bearer AT1'')]) \<and>
   \<not> present (accessToken (example_manager\<lparr>accessToken := JNull\<rparr>)) \<and>
   getAuthHeaders (example_manager\<lparr>accessToken := JNull\<rparr>) = Inl (Error ''No access token available'')"
  using getAuthHeaders_bearer [of example_manager]
        getAuthHeaders_bearer [of "example_manager\<lparr>accessToken := JNull\<rparr>"]
  by (simp add: example_manager_def present_def)

section \<open>clearTokens\<close>

lemma field_stored_record [simp]:
  "field (to_json (stored_record m)) ''clientId'' = to_json (clientId m)"
  "field (to_json (stored_record m)) ''clientSecret'' = to_json (clientSecret m)"
  "field (to_json (stored_record m)) ''accessToken'' = to_json (accessToken m)"
  "field (to_json (stored_record m)) ''refreshToken'' = to_json (refreshToken m)"
  "field (to_json (stored_record m)) ''tokenExpiry'' = to_json (tokenExpiry m)"
  by (simp_all add: field_def stored_record_def)

lemma to_json_undefined [simp]: "to_json v = JUndefined \<longleftrightarrow> v = JUndefined"
  by (cases v) (auto split: jsnum.splits)



section \<open>refreshAccessToken and exchangeCodeForTokens\<close>

lemma fetch_eq: "fetch r w = (next_response w r, emit (Fetch r) w)"
  by (simp add: fetch_def next_response_def)

lemma next_response_emit [simp]:
  "\<not> is_fetch e \<Longrightarrow> next_response (emit e w) r = next_response w r"
  by (simp add: next_response_def)

lemma expiry_string_emit [simp]: "expiry_string (emit e w) x = expiry_string w x"
  by (simp add: expiry_string_def)

lemma notify_refresh_fields [simp]:
  "localStorage (notify_refresh m w) = localStorage w"
  "storage_rejects (notify_refresh m w) = storage_rejects w"
  "server (notify_refresh m w) = server w"
  "clock (notify_refresh m w) = clock w"
  by (simp_all add: notify_refresh_def split: option.splits)

lemma get_prop_field: "get_prop d k = Inr v \<Longrightarrow> field d k = v"
  by (simp add: field_def)

lemma get_prop_error: "get_prop d k = Inl e \<Longrightarrow> d = JNull \<or> d = JUndefined"
  by (cases d) auto

lemma field_nullish [simp]: "field JNull k = JUndefined" "field JUndefined k = JUndefined"
  by (simp_all add: field_def)

text \<open>The outcomes of \<^verbatim>\<open>refreshAccessToken\<close> and of a successful exchange.\<close>

lemma refreshAccessToken_missing:
  "\<not> truthy (refreshToken m) \<or> \<not> truthy (clientId m) \<or> \<not> truthy (clientSecret m) \<Longrightarrow>
   refreshAccessToken m w =
     (Inl (Error ''Cannot refresh token: missing required credentials''), m, emit RefreshAttempt w)"
  by (auto simp add: refreshAccessToken_unfold Let_def)

lemma refreshAccessToken_success:
  assumes "refreshAccessToken m w = (Inr token, m', w')"
  shows "\<exists>resp data expiry.
           truthy (refreshToken m) \<and> truthy (clientId m) \<and> truthy (clientSecret m) \<and>
           next_response w (refresh_request m) = Inr resp \<and> json resp = Inr data \<and>
           token = field data ''access_token'' \<and> truthy token \<and>
           expiry_string w (field data ''expires_in'') = Inr expiry \<and>
           m' = m\<lparr>accessToken := token, tokenExpiry := JStr expiry\<rparr> \<and>
           w' = notify_refresh m' (snd (saveToStorage m' (emit (Fetch (refresh_request m)) (emit RefreshAttempt w))))"
  using assms
  by (auto simp add: refreshAccessToken_unfold Let_def fetch_eq refresh_request_def get_prop_field
      split: if_splits sum.splits prod.splits)

lemma refreshAccessToken_no_token:
  assumes "truthy (refreshToken m)" "truthy (clientId m)" "truthy (clientSecret m)"
    and "next_response w (refresh_request m) = Inr resp" "json resp = Inr data"
    and "\<not> truthy (field data ''access_token'')"
  shows "refreshAccessToken m w =
     (Inl (if data = JNull \<or> data = JUndefined
           then (case get_prop data ''access_token'' of Inl e \<Rightarrow> e | Inr v \<Rightarrow> Error [])
           else Error (ToString (js_or (field data ''error'') (JStr ''Failed to refresh token'')))),
      m,
      console_error ''Token refresh error:''
        (if data = JNull \<or> data = JUndefined
           then (case get_prop data ''access_token'' of Inl e \<Rightarrow> e | Inr v \<Rightarrow> Error [])
           else Error (ToString (js_or (field data ''error'') (JStr ''Failed to refresh token''))))
        (emit (Fetch (refresh_request m)) (emit RefreshAttempt w)))"
  using assms
  apply (simp add: refreshAccessToken_unfold Let_def fetch_eq refresh_request_def [symmetric])
  apply (cases data; simp add: field_def)
  done


lemma exchangeCodeForTokens_success:
  assumes "exchangeCodeForTokens code uri m w = (Inr tokens, m', w')"
  shows "\<exists>resp data expiry.
           truthy (clientId m) \<and> truthy (clientSecret m) \<and>
           next_response w (exchange_request code uri m w) = Inr resp \<and> json resp = Inr data \<and>
           truthy (field data ''access_token'') \<and>
           expiry_string w (field data ''expires_in'') = Inr expiry \<and>
           m' = m\<lparr>accessToken := field data ''access_token'',
                  refreshToken := field data ''refresh_token'',
                  tokenExpiry := JStr expiry\<rparr> \<and>
           w' = notify_refresh m' (snd (saveToStorage m' (emit (Fetch (exchange_request code uri m w)) w)))"
  using assms
  by (auto simp add: exchangeCodeForTokens_def Let_def fetch_eq exchange_request_def get_prop_field
      split: if_splits sum.splits prod.splits)

lemma example_next_response [simp]:
  "next_response (example_world (r # rs)) q = r"
  by (simp add: next_response_def example_world_def scripted_def)

lemma example_expiry [simp]:
  "expiry_string (example_world rs) (JNum (Fin 3600)) = Inr ''2024-01-01T01:00:00.000Z''"
  by (simp add: expiry_string_def example_world_def Date_toISOString_def iso_examples)

text \<open>
  C3. \<^verbatim>\<open>refreshAccessToken\<close> is atomic on failure. Without a refresh token,
  client id or client secret it fails with the error
  \<^verbatim>\<open>Cannot refresh token: missing required credentials\<close>, sends nothing and
  changes neither the manager nor the storage. When the answer of the token
  endpoint has no access token it fails (with the answer's \<^verbatim>\<open>error\<close>, or
  \<^verbatim>\<open>Failed to refresh token\<close>), and the manager and the storage are what
  they were before the call.
\<close>

theorem refreshAccessToken_failure_atomic:
  "(\<not> present (refreshToken m) \<or> \<not> present (clientId m) \<or> \<not> present (clientSecret m) \<longrightarrow>
      refreshAccessToken m w =
        (Inl (Error ''Cannot refresh token: missing required credentials''), m, emit RefreshAttempt w) \<and>
      localStorage (emit RefreshAttempt w) = localStorage w) \<and>
   (present (refreshToken m) \<and> present (clientId m) \<and> present (clientSecret m) \<longrightarrow>
      (\<forall>resp data.
         next_response w (refresh_request m) = Inr resp \<and> json resp = Inr data \<and>
         \<not> present (field data ''access_token'') \<longrightarrow>
           isl (fst (refreshAccessToken m w)) \<and>
           fst (snd (refreshAccessToken m w)) = m \<and>
           localStorage (snd (snd (refreshAccessToken m w))) = localStorage w \<and>
           (data \<noteq> JNull \<and> data \<noteq> JUndefined \<longrightarrow>
              fst (refreshAccessToken m w) =
                Inl (Error (ToString (js_or (field data ''error'') (JStr ''Failed to refresh token'')))))))"
proof (intro conjI impI allI)
  assume "\<not> present (refreshToken m) \<or> \<not> present (clientId m) \<or> \<not> present (clientSecret m)"
  then show "refreshAccessToken m w =
        (Inl (Error ''Cannot refresh token: missing required credentials''), m, emit RefreshAttempt w)"
    by (simp add: present_def refreshAccessToken_missing)
next
  show "localStorage (emit RefreshAttempt w) = localStorage w" by simp
next
  fix resp data
  assume creds: "present (refreshToken m) \<and> present (clientId m) \<and> present (clientSecret m)"
    and resp: "next_response w (refresh_request m) = Inr resp \<and> json resp = Inr data \<and>
         \<not> present (field data ''access_token'')"
  note eq = refreshAccessToken_no_token [of m w resp data]
  from creds resp show "isl (fst (refreshAccessToken m w))"
    by (simp add: eq present_def)
  from creds resp show "fst (snd (refreshAccessToken m w)) = m"
    by (simp add: eq present_def)
  from creds resp show "localStorage (snd (snd (refreshAccessToken m w))) = localStorage w"
    by (simp add: eq present_def)
  assume "data \<noteq> JNull \<and> data \<noteq> JUndefined"
  with creds resp show "fst (refreshAccessToken m w) =
                Inl (Error (ToString (js_or (field data ''error'') (JStr ''Failed to refresh token''))))"
    by (simp add: eq present_def)
qed

theorem refreshAccessToken_failure_atomic_witness:
  "\<not> present (refreshToken (example_manager\<lparr>refreshToken := JNull\<rparr>)) \<and>
   refreshAccessToken (example_manager\<lparr>refreshToken := JNull\<rparr>) (example_world []) =
     (Inl (Error ''Cannot refresh token: missing required credentials''),
      example_manager\<lparr>refreshToken := JNull\<rparr>, emit RefreshAttempt (example_world [])) \<and>
   present (refreshToken example_manager) \<and> present (clientId example_manager) \<and>
   present (clientSecret example_manager) \<and>
   next_response (example_world [respond 400 (JObj [(''error'', JStr ''invalid_grant'')])])
     (refresh_request example_manager) =
     Inr \<lparr> status = 400, json = Inr (JObj [(''error'', JStr ''invalid_grant'')]) \<rparr> \<and>
   fst (refreshAccessToken example_manager
          (example_world [respond 400 (JObj [(''error'', JStr ''invalid_grant'')])])) =
     Inl (Error ''invalid_grant'') \<and>
   fst (snd (refreshAccessToken example_manager
          (example_world [respond 400 (JObj [(''error'', JStr ''invalid_grant'')])]))) = example_manager \<and>
   localStorage (snd (snd (refreshAccessToken example_manager
          (example_world [respond 400 (JObj [(''error'', JStr ''invalid_grant'')])])))) =
     localStorage (example_world [respond 400 (JObj [(''error'', JStr ''invalid_grant'')])])"
  using refreshAccessToken_failure_atomic [of "example_manager\<lparr>refreshToken := JNull\<rparr>" "example_world []"]
        refreshAccessToken_failure_atomic [of example_manager
          "example_world [respond 400 (JObj [(''error'', JStr ''invalid_grant'')])]"]
  by (simp add: present_def example_manager_def respond_def field_def js_or_def)

text \<open>
  C4. A call of \<^verbatim>\<open>refreshAccessToken\<close> that succeeds changes
  \<open>accessToken\<close> and \<open>tokenExpiry\<close> and nothing else in the manager: the
  refresh token is the one held before the call, which was present, so it is
  neither \<open>null\<close> nor \<open>undefined\<close>. The new record is written to the
  storage (unless the storage refuses the write) and the refresh callback, when
  there is one, is the last thing called, with the new token and expiry.
\<close>

theorem refreshAccessToken_keeps_refreshToken:
  assumes "refreshAccessToken m w = (Inr token, m', w')"
  shows "refreshToken m' = refreshToken m \<and>
         present (refreshToken m') \<and> refreshToken m' \<noteq> JNull \<and> refreshToken m' \<noteq> JUndefined \<and>
         m' = m\<lparr>accessToken := accessToken m', tokenExpiry := tokenExpiry m'\<rparr> \<and>
         accessToken m' = token \<and> present token \<and>
         (\<exists>resp data expiry.
            next_response w (refresh_request m) = Inr resp \<and> json resp = Inr data \<and>
            token = field data ''access_token'' \<and>
            expiry_string w (field data ''expires_in'') = Inr expiry \<and>
            tokenExpiry m' = JStr expiry) \<and>
         localStorage w' =
           (if storage_rejects w (ToString (storageKey m)) (JsonText (to_json (stored_record m')))
            then localStorage w
            else (localStorage w)(ToString (storageKey m) \<mapsto> JsonText (to_json (stored_record m')))) \<and>
         (\<forall>cb. tokenRefreshCallback m = Some cb \<longrightarrow>
            last (trace w') = TokenRefreshCallback cb token (tokenExpiry m'))"
proof -
  from refreshAccessToken_success [OF assms] obtain resp data expiry where
    rt: "truthy (refreshToken m)" and
    resp: "next_response w (refresh_request m) = Inr resp" "json resp = Inr data" and
    tok: "token = field data ''access_token''" "truthy token" and
    ex: "expiry_string w (field data ''expires_in'') = Inr expiry" and
    m': "m' = m\<lparr>accessToken := token, tokenExpiry := JStr expiry\<rparr>" and
    w': "w' = notify_refresh m' (snd (saveToStorage m' (emit (Fetch (refresh_request m)) (emit RefreshAttempt w))))"
    by blast
  have 1: "refreshToken m' = refreshToken m" using m' by simp
  have 2: "present (refreshToken m') \<and> refreshToken m' \<noteq> JNull \<and> refreshToken m' \<noteq> JUndefined"
    using rt 1 by (auto simp add: present_def)
  have 3: "m' = m\<lparr>accessToken := accessToken m', tokenExpiry := tokenExpiry m'\<rparr>"
    using m' by simp
  have 4: "accessToken m' = token \<and> present token" using m' tok by (simp add: present_def)
  have 5: "\<exists>resp data expiry.
            next_response w (refresh_request m) = Inr resp \<and> json resp = Inr data \<and>
            token = field data ''access_token'' \<and>
            expiry_string w (field data ''expires_in'') = Inr expiry \<and>
            tokenExpiry m' = JStr expiry"
    using resp tok ex m' by auto
  have key: "storageKey m' = storageKey m" using m' by simp
  have 6: "localStorage w' =
           (if storage_rejects w (ToString (storageKey m)) (JsonText (to_json (stored_record m')))
            then localStorage w
            else (localStorage w)(ToString (storageKey m) \<mapsto> JsonText (to_json (stored_record m'))))"
    unfolding w' by (simp add: saveToStorage_storage key)
  have cb: "tokenRefreshCallback m' = tokenRefreshCallback m" using m' by simp
  have 7: "\<forall>cb. tokenRefreshCallback m = Some cb \<longrightarrow>
            last (trace w') = TokenRefreshCallback cb token (tokenExpiry m')"
    unfolding w' using 4 by (simp add: notify_refresh_def cb)
  from 1 2 3 4 5 6 7 show ?thesis by blast
qed

lemma example_refresh:
  "fst (refreshAccessToken example_manager
     (example_world [respond 200 (JObj [(''access_token'', JStr ''AT2''), (''expires_in'', JNum (Fin 3600))])])) =
   Inr (JStr ''AT2'')"
  "fst (snd (refreshAccessToken example_manager
     (example_world [respond 200 (JObj [(''access_token'', JStr ''AT2''), (''expires_in'', JNum (Fin 3600))])]))) =
   example_manager\<lparr>accessToken := JStr ''AT2'', tokenExpiry := JStr ''2024-01-01T01:00:00.000Z''\<rparr>"
  by (simp_all add: refreshAccessToken_unfold Let_def fetch_eq refresh_request_def [symmetric]
      respond_def field_def example_manager_def)

theorem refreshAccessToken_keeps_refreshToken_witness:
  "refreshAccessToken example_manager
     (example_world [respond 200 (JObj [(''access_token'', JStr ''AT2''), (''expires_in'', JNum (Fin 3600))])]) =
     (Inr (JStr ''AT2''),
      example_manager\<lparr>accessToken := JStr ''AT2'', tokenExpiry := JStr ''2024-01-01T01:00:00.000Z''\<rparr>,
      snd (snd (refreshAccessToken example_manager
        (example_world [respond 200 (JObj [(''access_token'', JStr ''AT2''), (''expires_in'', JNum (Fin 3600))])])))) \<and>
   refreshToken (example_manager\<lparr>accessToken := JStr ''AT2'', tokenExpiry := JStr ''2024-01-01T01:00:00.000Z''\<rparr>) =
     JStr ''RT1'' \<and>
   localStorage (snd (snd (refreshAccessToken example_manager
        (example_world [respond 200 (JObj [(''access_token'', JStr ''AT2''), (''expires_in'', JNum (Fin 3600))])]))))
     ''oauth_tokens'' =
     Some (JsonText (JObj [(''clientId'', JStr ''abc''), (''clientSecret'', JStr ''xyz''),
       (''accessToken'', JStr ''AT2''), (''refreshToken'', JStr ''RT1''),
       (''tokenExpiry'', JStr ''2024-01-01T01:00:00.000Z'')])) \<and>
   last (trace (snd (snd (refreshAccessToken example_manager
        (example_world [respond 200 (JObj [(''access_token'', JStr ''AT2''), (''expires_in'', JNum (Fin 3600))])]))))) =
     TokenRefreshCallback (Callback ''onTokenRefresh'') (JStr ''AT2'') (JStr ''2024-01-01T01:00:00.000Z'')"
proof -
  let ?w = "example_world [respond 200 (JObj [(''access_token'', JStr ''AT2''), (''expires_in'', JNum (Fin 3600))])]"
  let ?m' = "example_manager\<lparr>accessToken := JStr ''AT2'', tokenExpiry := JStr ''2024-01-01T01:00:00.000Z''\<rparr>"
  have eq: "refreshAccessToken example_manager ?w =
     (Inr (JStr ''AT2''), ?m', snd (snd (refreshAccessToken example_manager ?w)))"
    using example_refresh by (simp add: prod_eq_iff)
  show ?thesis
    using refreshAccessToken_keeps_refreshToken [OF eq] eq
    by (simp add: example_manager_def example_world_def stored_record_def)
qed

text \<open>
  C10. A successful \<^verbatim>\<open>exchangeCodeForTokens\<close> sets \<open>refreshToken\<close> to the
  \<^verbatim>\<open>refresh_token\<close> of the answer, whatever it held: when the answer has
  an access token and no \<^verbatim>\<open>refresh_token\<close>, the refresh token becomes
  \<open>undefined\<close> and the record written to the storage has none.
\<close>

theorem exchangeCodeForTokens_overwrites_refreshToken:
  assumes "exchangeCodeForTokens code redirectUri m w = (Inr tokens, m', w')"
  shows "\<exists>resp data.
           next_response w (exchange_request code redirectUri m w) = Inr resp \<and>
           json resp = Inr data \<and>
           present (field data ''access_token'') \<and>
           refreshToken m' = field data ''refresh_token'' \<and>
           localStorage w' =
             (if storage_rejects w (ToString (storageKey m)) (JsonText (to_json (stored_record m')))
              then localStorage w
              else (localStorage w)(ToString (storageKey m) \<mapsto> JsonText (to_json (stored_record m')))) \<and>
           field (to_json (stored_record m')) ''refreshToken'' = to_json (field data ''refresh_token'') \<and>
           (field data ''refresh_token'' = JUndefined \<longrightarrow>
              refreshToken m' = JUndefined \<and>
              field (to_json (stored_record m')) ''refreshToken'' = JUndefined)"
proof -
  from exchangeCodeForTokens_success [OF assms] obtain resp data expiry where
    resp: "next_response w (exchange_request code redirectUri m w) = Inr resp" "json resp = Inr data" and
    tok: "truthy (field data ''access_token'')" and
    m': "m' = m\<lparr>accessToken := field data ''access_token'',
                  refreshToken := field data ''refresh_token'',
                  tokenExpiry := JStr expiry\<rparr>" and
    w': "w' = notify_refresh m' (snd (saveToStorage m' (emit (Fetch (exchange_request code redirectUri m w)) w)))"
    by blast
  have key: "storageKey m' = storageKey m" using m' by simp
  have rt: "refreshToken m' = field data ''refresh_token''" using m' by simp
  have st: "localStorage w' =
             (if storage_rejects w (ToString (storageKey m)) (JsonText (to_json (stored_record m')))
              then localStorage w
              else (localStorage w)(ToString (storageKey m) \<mapsto> JsonText (to_json (stored_record m'))))"
    unfolding w' by (simp add: saveToStorage_storage key)
  show ?thesis
    using resp tok rt st by (auto simp add: present_def)
qed

lemma example_exchange:
  "fst (exchangeCodeForTokens (JStr ''code123'') JUndefined example_manager
     (example_world [respond 200 (JObj [(''access_token'', JStr ''AT2''), (''expires_in'', JNum (Fin 3600))])])) =
   Inr (JObj [(''accessToken'', JStr ''AT2''), (''refreshToken'', JUndefined),
              (''tokenExpiry'', JStr ''2024-01-01T01:00:00.000Z'')])"
  "fst (snd (exchangeCodeForTokens (JStr ''code123'') JUndefined example_manager
     (example_world [respond 200 (JObj [(''access_token'', JStr ''AT2''), (''expires_in'', JNum (Fin 3600))])]))) =
   example_manager\<lparr>accessToken := JStr ''AT2'', refreshToken := JUndefined,
     tokenExpiry := JStr ''2024-01-01T01:00:00.000Z''\<rparr>"
  by (simp_all add: exchangeCodeForTokens_def Let_def fetch_eq
      respond_def field_def example_manager_def)

theorem exchangeCodeForTokens_overwrites_refreshToken_witness:
  "refreshToken example_manager = JStr ''RT1'' \<and>
   exchangeCodeForTokens (JStr ''code123'') JUndefined example_manager
     (example_world [respond 200 (JObj [(''access_token'', JStr ''AT2''), (''expires_in'', JNum (Fin 3600))])]) =
     (Inr (JObj [(''accessToken'', JStr ''AT2''), (''refreshToken'', JUndefined),
              (''tokenExpiry'', JStr ''2024-01-01T01:00:00.000Z'')]),
      example_manager\<lparr>accessToken := JStr ''AT2'', refreshToken := JUndefined,
        tokenExpiry := JStr ''2024-01-01T01:00:00.000Z''\<rparr>,
      snd (snd (exchangeCodeForTokens (JStr ''code123'') JUndefined example_manager
        (example_world [respond 200 (JObj [(''access_token'', JStr ''AT2''), (''expires_in'', JNum (Fin 3600))])])))) \<and>
   localStorage (snd (snd (exchangeCodeForTokens (JStr ''code123'') JUndefined example_manager
        (example_world [respond 200 (JObj [(''access_token'', JStr ''AT2''), (''expires_in'', JNum (Fin 3600))])]))))
     ''oauth_tokens'' =
     Some (JsonText (JObj [(''clientId'', JStr ''abc''), (''clientSecret'', JStr ''xyz''),
       (''accessToken'', JStr ''AT2''), (''tokenExpiry'', JStr ''2024-01-01T01:00:00.000Z'')]))"
proof -
  let ?w = "example_world [respond 200 (JObj [(''access_token'', JStr ''AT2''), (''expires_in'', JNum (Fin 3600))])]"
  let ?m' = "example_manager\<lparr>accessToken := JStr ''AT2'', refreshToken := JUndefined,
        tokenExpiry := JStr ''2024-01-01T01:00:00.000Z''\<rparr>"
  have eq: "exchangeCodeForTokens (JStr ''code123'') JUndefined example_manager ?w =
     (Inr (JObj [(''accessToken'', JStr ''AT2''), (''refreshToken'', JUndefined),
              (''tokenExpiry'', JStr ''2024-01-01T01:00:00.000Z'')]), ?m',
      snd (snd (exchangeCodeForTokens (JStr ''code123'') JUndefined example_manager ?w)))"
    using example_exchange by (simp add: prod_eq_iff)
  show ?thesis
    using exchangeCodeForTokens_overwrites_refreshToken [OF eq] eq
    by (auto simp add: example_manager_def example_world_def stored_record_def)
qed

section \<open>checkTokenExpiry and getStatus\<close>

lemma refreshAccessToken_start_eq:
  "refreshAccessToken_start m w =
     (if present (refreshToken m) \<and> present (clientId m) \<and> present (clientSecret m)
      then (AwaitingResponse (next_response w (refresh_request m)),
            emit (Fetch (refresh_request m)) (emit RefreshAttempt w))
      else (Rejected (Error ''Cannot refresh token: missing required credentials''),
            emit RefreshAttempt w))"
  by (simp add: refreshAccessToken_start_def Let_def fetch_def next_response_def refresh_request_def
      present_def)

lemma refreshAccessToken_start_pending [simp]:
  "pending (snd (refreshAccessToken_start m w)) = pending w"
  by (simp add: refreshAccessToken_start_eq)

lemma checkTokenExpiry_result:
  "fst (checkTokenExpiry parse m w) =
     (if \<not> present (tokenExpiry m) \<or> \<not> present (refreshToken m) then None
      else let left = js_sub (Date_getTime parse (tokenExpiry m)) (Fin (clock w))
           in Some \<lparr> expired = js_less_eq left (Fin 0), timeLeft = left,
                       minutesLeft = js_floor_div left 60000 \<rparr>)"
  by (simp add: checkTokenExpiry_def present_def Let_def)

lemma checkTokenExpiry_world:
  "snd (checkTokenExpiry parse m w) =
     (if present (tokenExpiry m) \<and> present (refreshToken m) \<and>
         js_less (js_sub (Date_getTime parse (tokenExpiry m)) (Fin (clock w))) (Fin 300000) \<and>
         js_less (Fin 0) (js_sub (Date_getTime parse (tokenExpiry m)) (Fin (clock w)))
      then (snd (refreshAccessToken_start m w))
             \<lparr>pending := pending w @ [fst (refreshAccessToken_start m w)]\<rparr>
      else w)"
  by (simp add: checkTokenExpiry_def present_def Let_def refreshAccessToken_start_eq)

lemma run_pending_started:
  assumes "pending w = []"
  shows "run_pending m ((snd (refreshAccessToken_start m w))
             \<lparr>pending := pending w @ [fst (refreshAccessToken_start m w)]\<rparr>) =
         (case refreshAccessToken m w of
            (Inl err, m', w') \<Rightarrow>
              (m', case tokenExpiryCallback m' of
                     None \<Rightarrow> console_error ''Auto-refresh failed:'' err w'
                   | Some cb \<Rightarrow> emit (TokenExpiryCallback cb err)
                                 (console_error ''Auto-refresh failed:'' err w'))
          | (Inr token, m', w') \<Rightarrow> (m', w'))"
proof -
  obtain p w1 where s: "refreshAccessToken_start m w = (p, w1)"
    by (cases "refreshAccessToken_start m w")
  from refreshAccessToken_start_pending [of m w] s assms have "pending w1 = []" by simp
  then have w1: "w1\<lparr>pending := []\<rparr> = w1" by simp
  show ?thesis
    by (simp add: s assms run_pending_def autoRefresh_def refreshAccessToken_def w1 Let_def
        split: prod.splits sum.splits)
qed

text \<open>
  C2. \<^verbatim>\<open>checkTokenExpiry\<close> returns \<open>null\<close> if and only if the expiry or the
  refresh token is missing, and then does nothing. Otherwise, with
  \<open>timeLeft = expiry - now\<close>, it returns \<open>expired = (timeLeft \<le> 0)\<close>,
  \<open>timeLeft\<close> and \<open>minutesLeft = floor (timeLeft / 60000)\<close>, and it starts
  \<^verbatim>\<open>refreshAccessToken\<close> in the background if and only if
  \<open>0 < timeLeft < 5 minutes\<close> (an expiry that is no date gives \<open>NaN\<close>, not
  expired, and starts nothing). Starting it is one entry into
  \<^verbatim>\<open>refreshAccessToken\<close>: with client id and secret the token request is
  sent before \<^verbatim>\<open>checkTokenExpiry\<close> returns and its answer is awaited,
  without them the call is rejected at once; either way the call is left
  pending and the manager is not touched. When the pending call is then run,
  manager and world end as \<^verbatim>\<open>refreshAccessToken\<close> leaves them, and an error
  is not thrown but logged and passed to \<^verbatim>\<open>tokenExpiryCallback\<close>. In
  particular a credential with a refresh token whose expiry is not in the
  future is reported expired and no refresh is started.
\<close>

theorem checkTokenExpiry_window:
  "(fst (checkTokenExpiry parse m w) = None \<longleftrightarrow>
      \<not> present (tokenExpiry m) \<or> \<not> present (refreshToken m)) \<and>
   (\<not> present (tokenExpiry m) \<or> \<not> present (refreshToken m) \<longrightarrow>
      checkTokenExpiry parse m w = (None, w)) \<and>
   (present (tokenExpiry m) \<and> present (refreshToken m) \<longrightarrow>
      (\<forall>e. Date_getTime parse (tokenExpiry m) = Fin e \<longrightarrow>
         fst (checkTokenExpiry parse m w) =
           Some \<lparr> expired = (e - clock w \<le> 0), timeLeft = Fin (e - clock w),
                    minutesLeft = Fin ((e - clock w) div 60000) \<rparr> \<and>
         (0 < e - clock w \<and> e - clock w < 5 * 60 * 1000 \<longrightarrow>
            refresh_attempts (new_events w (snd (checkTokenExpiry parse m w))) = 1 \<and>
            snd (checkTokenExpiry parse m w) =
              (if present (clientId m) \<and> present (clientSecret m)
               then (emit (Fetch (refresh_request m)) (emit RefreshAttempt w))
                      \<lparr>pending := pending w @
                         [AwaitingResponse (next_response w (refresh_request m))]\<rparr>
               else (emit RefreshAttempt w)
                      \<lparr>pending := pending w @
                         [Rejected (Error ''Cannot refresh token: missing required credentials'')]\<rparr>) \<and>
            (pending w = [] \<longrightarrow>
               run_pending m (snd (checkTokenExpiry parse m w)) =
                 (case refreshAccessToken m w of
                    (Inl err, m', w') \<Rightarrow>
                      (m', case tokenExpiryCallback m' of
                             None \<Rightarrow> console_error ''Auto-refresh failed:'' err w'
                           | Some cb \<Rightarrow> emit (TokenExpiryCallback cb err)
                                         (console_error ''Auto-refresh failed:'' err w'))
                  | (Inr token, m', w') \<Rightarrow> (m', w')))) \<and>
         (\<not> (0 < e - clock w \<and> e - clock w < 5 * 60 * 1000) \<longrightarrow>
            snd (checkTokenExpiry parse m w) = w)) \<and>
      (Date_getTime parse (tokenExpiry m) = NaN \<longrightarrow>
         checkTokenExpiry parse m w =
           (Some \<lparr> expired = False, timeLeft = NaN, minutesLeft = NaN \<rparr>, w))) \<and>
   (present (tokenExpiry m) \<and> present (refreshToken m) \<longrightarrow>
      (\<forall>e. Date_getTime parse (tokenExpiry m) = Fin e \<and> e \<le> clock w \<longrightarrow>
         (\<exists>i. checkTokenExpiry parse m w = (Some i, w) \<and> expired i)))"
proof -
  have absent: "\<not> present (tokenExpiry m) \<or> \<not> present (refreshToken m) \<Longrightarrow>
      checkTokenExpiry parse m w = (None, w)"
    by (auto simp add: checkTokenExpiry_def present_def)
  have null: "fst (checkTokenExpiry parse m w) = None \<longleftrightarrow>
      \<not> present (tokenExpiry m) \<or> \<not> present (refreshToken m)"
    by (simp add: checkTokenExpiry_result Let_def)
  have fin: "fst (checkTokenExpiry parse m w) =
           Some \<lparr> expired = (e - clock w \<le> 0), timeLeft = Fin (e - clock w),
                    minutesLeft = Fin ((e - clock w) div 60000) \<rparr>"
    if "present (tokenExpiry m)" "present (refreshToken m)"
       "Date_getTime parse (tokenExpiry m) = Fin e" for e
    using that by (simp add: checkTokenExpiry_result Let_def)
  have inside: "snd (checkTokenExpiry parse m w) =
      (snd (refreshAccessToken_start m w))
         \<lparr>pending := pending w @ [fst (refreshAccessToken_start m w)]\<rparr>"
    if "present (tokenExpiry m)" "present (refreshToken m)"
       "Date_getTime parse (tokenExpiry m) = Fin e" "0 < e - clock w" "e - clock w < 5 * 60 * 1000" for e
    using that by (simp add: checkTokenExpiry_world)
  have outside: "snd (checkTokenExpiry parse m w) = w"
    if "present (tokenExpiry m)" "present (refreshToken m)"
       "Date_getTime parse (tokenExpiry m) = Fin e" "\<not> (0 < e - clock w \<and> e - clock w < 5 * 60 * 1000)" for e
    using that by (auto simp add: checkTokenExpiry_world)
  have nan: "checkTokenExpiry parse m w =
           (Some \<lparr> expired = False, timeLeft = NaN, minutesLeft = NaN \<rparr>, w)"
    if "present (tokenExpiry m)" "present (refreshToken m)"
       "Date_getTime parse (tokenExpiry m) = NaN"
    using that by (simp add: prod_eq_iff checkTokenExpiry_result checkTokenExpiry_world Let_def)
  have started: "snd (checkTokenExpiry parse m w) =
              (if present (clientId m) \<and> present (clientSecret m)
               then (emit (Fetch (refresh_request m)) (emit RefreshAttempt w))
                      \<lparr>pending := pending w @
                         [AwaitingResponse (next_response w (refresh_request m))]\<rparr>
               else (emit RefreshAttempt w)
                      \<lparr>pending := pending w @
                         [Rejected (Error ''Cannot refresh token: missing required credentials'')]\<rparr>)"
    if "present (tokenExpiry m)" "present (refreshToken m)"
       "Date_getTime parse (tokenExpiry m) = Fin e" "0 < e - clock w" "e - clock w < 5 * 60 * 1000" for e
    using that by (simp add: inside [OF that] refreshAccessToken_start_eq)
  have once: "refresh_attempts (new_events w (snd (checkTokenExpiry parse m w))) = 1"
    if "present (tokenExpiry m)" "present (refreshToken m)"
       "Date_getTime parse (tokenExpiry m) = Fin e" "0 < e - clock w" "e - clock w < 5 * 60 * 1000" for e
    by (simp add: started [OF that] refresh_attempts_def new_events_def)
  have later: "run_pending m (snd (checkTokenExpiry parse m w)) =
                 (case refreshAccessToken m w of
                    (Inl err, m', w') \<Rightarrow>
                      (m', case tokenExpiryCallback m' of
                             None \<Rightarrow> console_error ''Auto-refresh failed:'' err w'
                           | Some cb \<Rightarrow> emit (TokenExpiryCallback cb err)
                                         (console_error ''Auto-refresh failed:'' err w'))
                  | (Inr token, m', w') \<Rightarrow> (m', w'))"
    if "present (tokenExpiry m)" "present (refreshToken m)"
       "Date_getTime parse (tokenExpiry m) = Fin e" "0 < e - clock w" "e - clock w < 5 * 60 * 1000"
       "pending w = []" for e
    by (simp only: inside [OF that(1-5)] run_pending_started [OF that(6)])
  have past: "\<exists>i. checkTokenExpiry parse m w = (Some i, w) \<and> expired i"
    if "present (tokenExpiry m)" "present (refreshToken m)"
       "Date_getTime parse (tokenExpiry m) = Fin e" "e \<le> clock w" for e
  proof -
    from that have "snd (checkTokenExpiry parse m w) = w" by (intro outside [of e]) auto
    with fin [OF that(1-3)] that(4) show ?thesis by (simp add: prod_eq_iff)
  qed
  show ?thesis
    using absent null fin started once later outside nan past by blast
qed

theorem checkTokenExpiry_window_witness:
  "present (tokenExpiry example_manager) \<and> present (refreshToken example_manager) \<and>
   present (clientId example_manager) \<and> present (clientSecret example_manager) \<and>
   pending (example_world [respond 200 (JObj [(''access_token'', JStr ''AT2''), (''expires_in'', JNum (Fin 3600))])]) = [] \<and>
   Date_getTime Date_parse_iso (tokenExpiry example_manager) = Fin 1704067320000 \<and>
   checkTokenExpiry Date_parse_iso example_manager
       (example_world [respond 200 (JObj [(''access_token'', JStr ''AT2''), (''expires_in'', JNum (Fin 3600))])]) =
     (Some \<lparr> expired = False, timeLeft = Fin 120000, minutesLeft = Fin 2 \<rparr>,
      (example_world [respond 200 (JObj [(''access_token'', JStr ''AT2''), (''expires_in'', JNum (Fin 3600))])])
        \<lparr>trace := [RefreshAttempt, Fetch (refresh_request example_manager)],
         pending := [AwaitingResponse
            (respond 200 (JObj [(''access_token'', JStr ''AT2''), (''expires_in'', JNum (Fin 3600))]))]\<rparr>) \<and>
   fst (run_pending example_manager (snd (checkTokenExpiry Date_parse_iso example_manager
       (example_world [respond 200 (JObj [(''access_token'', JStr ''AT2''), (''expires_in'', JNum (Fin 3600))])])))) =
     example_manager\<lparr>accessToken := JStr ''AT2'', tokenExpiry := JStr ''2024-01-01T01:00:00.000Z''\<rparr> \<and>
   run_pending
       (example_manager\<lparr>clientSecret := JNull, tokenExpiryCallback := Some (Callback ''onTokenExpiry'')\<rparr>)
       (snd (checkTokenExpiry Date_parse_iso
          (example_manager\<lparr>clientSecret := JNull, tokenExpiryCallback := Some (Callback ''onTokenExpiry'')\<rparr>)
          (example_world []))) =
     (example_manager\<lparr>clientSecret := JNull, tokenExpiryCallback := Some (Callback ''onTokenExpiry'')\<rparr>,
      (example_world [])
        \<lparr>trace := [RefreshAttempt,
           ConsoleError ''Auto-refresh failed:'' (Error ''Cannot refresh token: missing required credentials''),
           TokenExpiryCallback (Callback ''onTokenExpiry'')
             (Error ''Cannot refresh token: missing required credentials'')]\<rparr>) \<and>
   fst (checkTokenExpiry Date_parse_iso (example_manager\<lparr>refreshToken := JNull\<rparr>) (example_world [])) = None \<and>
   Date_getTime Date_parse_iso (JStr ''2020-01-01T00:00:00.000Z'') = Fin 1577836800000 \<and>
   checkTokenExpiry Date_parse_iso (example_manager\<lparr>tokenExpiry := JStr ''2020-01-01T00:00:00.000Z''\<rparr>) (example_world []) =
     (Some \<lparr> expired = True, timeLeft = Fin (- 126230400000), minutesLeft = Fin (- 2103840) \<rparr>,
      example_world [])"
proof -
  let ?w = "example_world [respond 200 (JObj [(''access_token'', JStr ''AT2''), (''expires_in'', JNum (Fin 3600))])]"
  have p: "present (tokenExpiry example_manager)" "present (refreshToken example_manager)"
      "present (clientId example_manager)" "present (clientSecret example_manager)"
    by (simp_all add: example_manager_def present_def)
  have q: "pending ?w = []" by (simp add: example_world_def)
  have t: "Date_getTime Date_parse_iso (tokenExpiry example_manager) = Fin 1704067320000"
    by (simp add: example_manager_def iso_examples)
  have c: "clock ?w = 1704067200000" by (simp add: example_world_def)
  have tr: "trace ?w = []" by (simp add: example_world_def)
  note T = checkTokenExpiry_window [of Date_parse_iso example_manager ?w]
  from T p t have r1: "fst (checkTokenExpiry Date_parse_iso example_manager ?w) =
      Some \<lparr> expired = False, timeLeft = Fin 120000, minutesLeft = Fin 2 \<rparr>"
    by (simp add: c)
  from T p t have r2: "snd (checkTokenExpiry Date_parse_iso example_manager ?w) =
      ?w\<lparr>trace := [RefreshAttempt, Fetch (refresh_request example_manager)],
         pending := [AwaitingResponse
            (respond 200 (JObj [(''access_token'', JStr ''AT2''), (''expires_in'', JNum (Fin 3600))]))]\<rparr>"
    by (simp add: c q tr emit_def)
  have win: "0 < 1704067320000 - clock ?w \<and> 1704067320000 - clock ?w < 5 * 60 * 1000"
    by (simp add: c)
  from T p(1,2) t win q have r3: "run_pending example_manager (snd (checkTokenExpiry Date_parse_iso example_manager ?w)) =
      (case refreshAccessToken example_manager ?w of
         (Inl err, m', w') \<Rightarrow>
           (m', case tokenExpiryCallback m' of
                  None \<Rightarrow> console_error ''Auto-refresh failed:'' err w'
                | Some cb \<Rightarrow> emit (TokenExpiryCallback cb err)
                              (console_error ''Auto-refresh failed:'' err w'))
       | (Inr token, m', w') \<Rightarrow> (m', w'))"
    by blast
  obtain r m' w' where e: "refreshAccessToken example_manager ?w = (r, m', w')"
    by (cases "refreshAccessToken example_manager ?w")
  from example_refresh e have "r = Inr (JStr ''AT2'')"
      "m' = example_manager\<lparr>accessToken := JStr ''AT2'', tokenExpiry := JStr ''2024-01-01T01:00:00.000Z''\<rparr>"
    by simp_all
  with r3 e have r4: "fst (run_pending example_manager (snd (checkTokenExpiry Date_parse_iso example_manager ?w))) =
      example_manager\<lparr>accessToken := JStr ''AT2'', tokenExpiry := JStr ''2024-01-01T01:00:00.000Z''\<rparr>"
    by simp
  let ?m2 = "example_manager\<lparr>clientSecret := JNull, tokenExpiryCallback := Some (Callback ''onTokenExpiry'')\<rparr>"
  have p2: "present (tokenExpiry ?m2)" "present (refreshToken ?m2)"
    by (simp_all add: example_manager_def present_def)
  have t2: "Date_getTime Date_parse_iso (tokenExpiry ?m2) = Fin 1704067320000"
    by (simp add: example_manager_def iso_examples)
  have win2: "0 < 1704067320000 - clock (example_world []) \<and>
      1704067320000 - clock (example_world []) < 5 * 60 * 1000"
    by (simp add: example_world_def)
  have q2: "pending (example_world []) = []" by (simp add: example_world_def)
  from checkTokenExpiry_window [of Date_parse_iso ?m2 "example_world []"] p2 t2 win2 q2
  have r7: "run_pending ?m2 (snd (checkTokenExpiry Date_parse_iso ?m2 (example_world []))) =
      (case refreshAccessToken ?m2 (example_world []) of
         (Inl err, m', w') \<Rightarrow>
           (m', case tokenExpiryCallback m' of
                  None \<Rightarrow> console_error ''Auto-refresh failed:'' err w'
                | Some cb \<Rightarrow> emit (TokenExpiryCallback cb err)
                              (console_error ''Auto-refresh failed:'' err w'))
       | (Inr token, m', w') \<Rightarrow> (m', w'))"
    by blast
  have r8: "refreshAccessToken ?m2 (example_world []) =
      (Inl (Error ''Cannot refresh token: missing required credentials''), ?m2,
       emit RefreshAttempt (example_world []))"
    by (rule refreshAccessToken_missing) simp
  have r9: "run_pending ?m2 (snd (checkTokenExpiry Date_parse_iso ?m2 (example_world []))) =
     (?m2,
      (example_world [])
        \<lparr>trace := [RefreshAttempt,
           ConsoleError ''Auto-refresh failed:'' (Error ''Cannot refresh token: missing required credentials''),
           TokenExpiryCallback (Callback ''onTokenExpiry'')
             (Error ''Cannot refresh token: missing required credentials'')]\<rparr>)"
    by (simp only: r7 r8) (simp add: example_world_def emit_def console_error_def)
  have r5: "fst (checkTokenExpiry Date_parse_iso (example_manager\<lparr>refreshToken := JNull\<rparr>) (example_world [])) = None"
    using checkTokenExpiry_window [of Date_parse_iso "example_manager\<lparr>refreshToken := JNull\<rparr>" "example_world []"]
    by (simp add: present_def)
  have t6: "Date_getTime Date_parse_iso (JStr ''2020-01-01T00:00:00.000Z'') = Fin 1577836800000"
    by (simp add: iso_examples)
  have r6: "checkTokenExpiry Date_parse_iso (example_manager\<lparr>tokenExpiry := JStr ''2020-01-01T00:00:00.000Z''\<rparr>) (example_world []) =
     (Some \<lparr> expired = True, timeLeft = Fin (- 126230400000), minutesLeft = Fin (- 2103840) \<rparr>,
      example_world [])"
    using checkTokenExpiry_window [of Date_parse_iso "example_manager\<lparr>tokenExpiry := JStr ''2020-01-01T00:00:00.000Z''\<rparr>" "example_world []"]
    by (simp add: example_manager_def example_world_def present_def iso_examples prod_eq_iff)
  from r1 r2 have r12: "checkTokenExpiry Date_parse_iso example_manager ?w =
     (Some \<lparr> expired = False, timeLeft = Fin 120000, minutesLeft = Fin 2 \<rparr>,
      ?w\<lparr>trace := [RefreshAttempt, Fetch (refresh_request example_manager)],
         pending := [AwaitingResponse
            (respond 200 (JObj [(''access_token'', JStr ''AT2''), (''expires_in'', JNum (Fin 3600))]))]\<rparr>)"
    by (simp add: prod_eq_iff)
  show ?thesis
    using p q t r12 r4 r9 r5 t6 r6 by simp
qed

text \<open>
  C5 fails on the code. \<^verbatim>\<open>getStatus\<close> takes the expiry from
  \<^verbatim>\<open>checkTokenExpiry\<close>, which answers \<open>null\<close> without a refresh token: a
  credential whose access token expired on 2020-01-01, read on 2024-01-01, is
  reported authenticated when it has no refresh token, and not authenticated
  when it has one.
\<close>

theorem getStatus_expired_without_refreshToken:
  "Date_getTime Date_parse_iso (JStr ''2020-01-01T00:00:00.000Z'') = Fin 1577836800000 \<and>
   1577836800000 < clock (example_world []) \<and>
   isAuthenticated (fst (getStatus Date_parse_iso
      (example_manager\<lparr>refreshToken := JNull, tokenExpiry := JStr ''2020-01-01T00:00:00.000Z''\<rparr>)
      (example_world []))) = True \<and>
   isAuthenticated (fst (getStatus Date_parse_iso
      (example_manager\<lparr>tokenExpiry := JStr ''2020-01-01T00:00:00.000Z''\<rparr>)
      (example_world []))) = False"
  by (simp add: getStatus_def checkTokenExpiry_def example_manager_def example_world_def iso_examples Let_def)

lemma getStatus_isAuthenticated:
  "isAuthenticated (fst (getStatus parse m w)) \<longleftrightarrow>
     present (accessToken m) \<and>
     (\<not> present (tokenExpiry m) \<or> \<not> present (refreshToken m) \<or>
      \<not> js_less_eq (js_sub (Date_getTime parse (tokenExpiry m)) (Fin (clock w))) (Fin 0))"
  by (auto simp add: getStatus_def checkTokenExpiry_def present_def Let_def)

section \<open>StorageManager: save and load\<close>

lemma to_json_json_value: "json_value v \<Longrightarrow> to_json v = v"
proof (induction v)
  case (JObj fs)
  have m: "map (map_prod id to_json) fs = fs"
  proof (rule map_idI)
    fix kv assume kv: "kv \<in> set fs"
    with JObj.prems have "json_value (snd kv)" by (simp add: list_all_iff)
    with JObj.IH [of kv "snd kv"] kv have "to_json (snd kv) = snd kv"
      by (cases kv) auto
    then show "map_prod id to_json kv = kv" by (cases kv) simp
  qed
  have f: "filter (\<lambda>kv. snd kv \<noteq> JUndefined) fs = fs"
  proof (rule filter_True)
    show "\<forall>kv\<in>set fs. snd kv \<noteq> JUndefined"
    proof
      fix kv assume "kv \<in> set fs"
      with JObj.prems have "json_value (snd kv)" by (simp add: list_all_iff)
      then show "snd kv \<noteq> JUndefined" by auto
    qed
  qed
  show ?case by (simp add: m f)
next
  case (JNum n)
  then show ?case by (cases n) auto
qed auto

lemma json_value_nullable_string: "nullable_string v \<Longrightarrow> json_value v"
  by (cases v) simp_all

lemma json_value_credential_record:
  "nullable_string a \<Longrightarrow> nullable_string b \<Longrightarrow> nullable_string c \<Longrightarrow> nullable_string d \<Longrightarrow>
   nullable_string e \<Longrightarrow> json_value (credential_record a b c d e)"
  by (simp add: credential_record_def json_value_nullable_string)

lemma save_json:
  assumes "json_value data"
  shows "save sm key data w =
     (if storage_rejects w (getKey sm key) (JsonText data)
      then (False, console_error (''Error saving '' @ ToString key @ '':'')
                     (QuotaExceededError ''The quota has been exceeded'') w)
      else (True, w\<lparr>localStorage := (localStorage w)(getKey sm key \<mapsto> JsonText data)\<rparr>))"
proof -
  from assms have "data \<noteq> JUndefined" by auto
  then show ?thesis
    by (simp add: save_def setItem_def Let_def JSON_stringify_def to_json_json_value [OF assms])
qed

lemma load_stored:
  "localStorage w (getKey sm key) = Some (JsonText data) \<Longrightarrow>
     load sm key defaultValue w = (data, w)"
  by (simp add: load_def getItem_def Let_def)

lemma save_load_json:
  assumes "json_value data" and "\<not> storage_rejects w (getKey sm key) (JsonText data)"
  shows "fst (save sm key data w) = True"
    and "load sm key defaultValue (snd (save sm key data w)) = (data, snd (save sm key data w))"
  using assms by (simp_all add: save_json load_stored)

text \<open>
  C8. Round trip of the token store. On a storage that takes the write,
  \<^verbatim>\<open>save(key, record)\<close> stores the record under the key of the namespace and
  returns \<open>true\<close>, and \<^verbatim>\<open>load(key)\<close> on the same manager and key then
  returns the record saved, whatever was stored before and whatever default is
  given. This holds for every value JSON can write, and so for every record of
  the five credential fields whose values are strings or \<open>null\<close>. On a
  storage that refuses the write \<^verbatim>\<open>save\<close> returns \<open>false\<close> and the storage
  is as before.
\<close>

theorem save_load_roundtrip:
  "(json_value data \<and> \<not> storage_rejects w (getKey sm key) (JsonText data) \<longrightarrow>
      save sm key data w =
        (True, w\<lparr>localStorage := (localStorage w)(getKey sm key \<mapsto> JsonText data)\<rparr>) \<and>
      load sm key defaultValue (snd (save sm key data w)) = (data, snd (save sm key data w))) \<and>
   (nullable_string cid \<and> nullable_string secret \<and> nullable_string token \<and>
    nullable_string refresh \<and> nullable_string expiry \<and>
    \<not> storage_rejects w (getKey sm key)
        (JsonText (credential_record cid secret token refresh expiry)) \<longrightarrow>
      fst (save sm key (credential_record cid secret token refresh expiry) w) = True \<and>
      fst (load sm key defaultValue
             (snd (save sm key (credential_record cid secret token refresh expiry) w))) =
        credential_record cid secret token refresh expiry) \<and>
   (json_value data \<and> storage_rejects w (getKey sm key) (JsonText data) \<longrightarrow>
      fst (save sm key data w) = False \<and>
      localStorage (snd (save sm key data w)) = localStorage w)"
proof -
  have a: "save sm key data w =
        (True, w\<lparr>localStorage := (localStorage w)(getKey sm key \<mapsto> JsonText data)\<rparr>) \<and>
      load sm key defaultValue (snd (save sm key data w)) = (data, snd (save sm key data w))"
    if "json_value data" "\<not> storage_rejects w (getKey sm key) (JsonText data)"
    using that save_load_json(2) [of data w sm key defaultValue] by (simp add: save_json)
  have b: "fst (save sm key (credential_record cid secret token refresh expiry) w) = True \<and>
      fst (load sm key defaultValue
             (snd (save sm key (credential_record cid secret token refresh expiry) w))) =
        credential_record cid secret token refresh expiry"
    if "nullable_string cid" "nullable_string secret" "nullable_string token"
       "nullable_string refresh" "nullable_string expiry"
       "\<not> storage_rejects w (getKey sm key)
          (JsonText (credential_record cid secret token refresh expiry))"
  proof -
    from that have j: "json_value (credential_record cid secret token refresh expiry)"
      by (simp add: json_value_credential_record)
    from save_load_json(1) [OF j that(6)] save_load_json(2) [OF j that(6), of defaultValue]
    show ?thesis by simp
  qed
  have c: "fst (save sm key data w) = False \<and>
      localStorage (snd (save sm key data w)) = localStorage w"
    if "json_value data" "storage_rejects w (getKey sm key) (JsonText data)"
    using that by (simp add: save_json)
  from a b c show ?thesis by blast
qed

theorem save_load_roundtrip_witness:
  "nullable_string (JStr ''abc'') \<and> nullable_string (JStr ''xyz'') \<and> nullable_string JNull \<and>
   nullable_string (JStr ''RT1'') \<and> nullable_string (JStr ''2024-01-01T01:00:00.000Z'') \<and>
   \<not> storage_rejects (example_world []) (getKey example_storage (JStr ''oauth''))
       (JsonText (credential_record (JStr ''abc'') (JStr ''xyz'') JNull (JStr ''RT1'')
          (JStr ''2024-01-01T01:00:00.000Z''))) \<and>
   getKey example_storage (JStr ''oauth'') = ''app_oauth'' \<and>
   fst (save example_storage (JStr ''oauth'')
          (credential_record (JStr ''abc'') (JStr ''xyz'') JNull (JStr ''RT1'') (JStr ''2024-01-01T01:00:00.000Z''))
          (example_world [])) = True \<and>
   fst (load example_storage (JStr ''oauth'') JUndefined
          (snd (save example_storage (JStr ''oauth'')
             (credential_record (JStr ''abc'') (JStr ''xyz'') JNull (JStr ''RT1'') (JStr ''2024-01-01T01:00:00.000Z''))
             (example_world [])))) =
     credential_record (JStr ''abc'') (JStr ''xyz'') JNull (JStr ''RT1'') (JStr ''2024-01-01T01:00:00.000Z'') \<and>
   json_value (JStr ''v'') \<and>
   storage_rejects ((example_world [])\<lparr>storage_rejects := (\<lambda>k t. True)\<rparr>)
       (getKey example_storage (JStr ''oauth'')) (JsonText (JStr ''v'')) \<and>
   fst (save example_storage (JStr ''oauth'') (JStr ''v'')
          ((example_world [])\<lparr>storage_rejects := (\<lambda>k t. True)\<rparr>)) = False"
proof -
  let ?r = "credential_record (JStr ''abc'') (JStr ''xyz'') JNull (JStr ''RT1'') (JStr ''2024-01-01T01:00:00.000Z'')"
  have n: "\<not> storage_rejects (example_world []) (getKey example_storage (JStr ''oauth'')) (JsonText ?r)"
    by (simp add: example_world_def)
  have k: "getKey example_storage (JStr ''oauth'') = ''app_oauth''"
    by (simp add: getKey_def example_storage_def)
  have y: "storage_rejects ((example_world [])\<lparr>storage_rejects := (\<lambda>k t. True)\<rparr>)
       (getKey example_storage (JStr ''oauth'')) (JsonText (JStr ''v''))"
    by simp
  show ?thesis
    using save_load_roundtrip [of ?r "example_world []" example_storage "JStr ''oauth''" JUndefined
        "JStr ''abc''" "JStr ''xyz''" JNull "JStr ''RT1''" "JStr ''2024-01-01T01:00:00.000Z''"]
      save_load_roundtrip [of "JStr ''v''" "(example_world [])\<lparr>storage_rejects := (\<lambda>k t. True)\<rparr>"
        example_storage "JStr ''oauth''" JUndefined
        "JStr ''abc''" "JStr ''xyz''" JNull "JStr ''RT1''" "JStr ''2024-01-01T01:00:00.000Z''"]
      n k y
    by simp
qed

text \<open>A field that is \<open>undefined\<close> does not come back: JSON leaves it out.\<close>

lemma save_load_undefined_field:
  "fst (load example_storage (JStr ''oauth'') JUndefined
          (snd (save example_storage (JStr ''oauth'')
             (credential_record (JStr ''abc'') (JStr ''xyz'') (JStr ''AT1'') JUndefined (JStr ''e''))
             (example_world [])))) =
     JObj [(''clientId'', JStr ''abc''), (''clientSecret'', JStr ''xyz''),
           (''accessToken'', JStr ''AT1''), (''expiresAt'', JStr ''e'')]"
  by (simp add: save_def load_def setItem_def getItem_def Let_def example_world_def
      JSON_stringify_def credential_record_def example_storage_def getKey_def)

section \<open>makeAuthenticatedRequest\<close>

lemma get_prop_defined: "opts \<noteq> JNull \<Longrightarrow> opts \<noteq> JUndefined \<Longrightarrow> get_prop opts k = Inr (field opts k)"
  by (cases opts) (simp_all add: field_def)

lemma makeAuthenticatedRequest_null:
  "makeAuthenticatedRequest url JNull m w =
     (Inl (TypeError ''Cannot read properties of null (reading headers)''), m,
      console_error ''Authenticated request error:''
        (TypeError ''Cannot read properties of null (reading headers)'') w)"
  by (simp add: makeAuthenticatedRequest_def)

lemma makeAuthenticatedRequest_no_token:
  assumes "options \<noteq> JNull" "\<not> truthy (accessToken m)"
  shows "makeAuthenticatedRequest url options m w =
     (Inl (Error ''No access token available''), m,
      console_error ''Authenticated request error:'' (Error ''No access token available'') w)"
proof -
  have "get_prop (if options = JUndefined then JObj [] else options) ''headers'' =
        Inr (field (if options = JUndefined then JObj [] else options) ''headers'')"
    using assms(1) by (intro get_prop_defined) auto
  then show ?thesis
    using assms(2) by (simp add: makeAuthenticatedRequest_def getAuthHeaders_def)
qed

lemma makeAuthenticatedRequest_eq:
  assumes "options \<noteq> JNull" "truthy (accessToken m)"
  shows "makeAuthenticatedRequest url options m w =
     (case next_response w (api_request url options m) of
        Inl e \<Rightarrow> (Inl e, m, console_error ''Authenticated request error:'' e
                    (emit (Fetch (api_request url options m)) w))
      | Inr resp \<Rightarrow>
          if status resp = 401 \<and> truthy (refreshToken m) then
            (case refreshAccessToken m (emit (Fetch (api_request url options m)) w) of
               (Inl e, m2, w2) \<Rightarrow> (Inl e, m2, console_error ''Authenticated request error:'' e w2)
             | (Inr token, m2, w2) \<Rightarrow>
                 (next_response w2 (api_request url options m2), m2,
                  emit (Fetch (api_request url options m2)) w2))
          else (Inr resp, m, emit (Fetch (api_request url options m)) w))"
proof -
  define opts where "opts = (if options = JUndefined then JObj [] else options)"
  let ?w1 = "emit (Fetch (api_request url options m)) w"
  have gp: "get_prop opts ''headers'' = Inr (field opts ''headers'')"
    using assms(1) unfolding opts_def by (intro get_prop_defined) auto
  have ah: "getAuthHeaders m = Inr (JObj [(''Authorization'', JStr (''Bearer '' @ ToString (accessToken m)))])"
    using assms(2) by (simp add: getAuthHeaders_def)
  have req: "\<And>m'. Request url (request_init opts (field opts ''headers'')
        (JObj [(''Authorization'', JStr (''Bearer '' @ ToString (accessToken m')))])) = api_request url options m'"
    by (simp add: api_request_def Let_def opts_def)
  have second: "\<And>w1. (case refreshAccessToken m w1 of
           (Inl e, m2, w2) \<Rightarrow> (Inl e, m2, console_error ''Authenticated request error:'' e w2)
         | (Inr token, m2, w2) \<Rightarrow>
             (case getAuthHeaders m2 of
                Inl e \<Rightarrow> (Inl e, m2, console_error ''Authenticated request error:'' e w2)
              | Inr auth2 \<Rightarrow>
                  (case fetch (Request url (request_init opts (field opts ''headers'') auth2)) w2 of
                     (r, w3) \<Rightarrow> (r, m2, w3)))) =
        (case refreshAccessToken m w1 of
           (Inl e, m2, w2) \<Rightarrow> (Inl e, m2, console_error ''Authenticated request error:'' e w2)
         | (Inr token, m2, w2) \<Rightarrow>
                 (next_response w2 (api_request url options m2), m2,
                  emit (Fetch (api_request url options m2)) w2))"
  proof -
    fix w1
    obtain r m2 w2 where fields: "refreshAccessToken m w1 = (r, m2, w2)"
      by (cases "refreshAccessToken m w1") auto
    show "?thesis w1"
    proof (cases r)
      case (Inl e)
      with fields show ?thesis by simp
    next
      case (Inr token)
      with fields have "refreshAccessToken m w1 = (Inr token, m2, w2)" by simp
      from refreshAccessToken_success [OF this] have "truthy (accessToken m2)" by auto
      then have "getAuthHeaders m2 =
          Inr (JObj [(''Authorization'', JStr (''Bearer '' @ ToString (accessToken m2)))])"
        by (simp add: getAuthHeaders_def)
      with fields Inr show ?thesis by (simp only: prod.case sum.case fetch_eq req)
    qed
  qed
  show ?thesis
    apply (simp only: makeAuthenticatedRequest_def Let_def opts_def [symmetric])
    apply (simp only: gp ah sum.case second)
    apply (simp only: req fetch_eq prod.case)
    done
qed


lemma notify_refresh_trace:
  "trace (notify_refresh m w) =
     trace w @ (case tokenRefreshCallback m of None \<Rightarrow> []
                | Some cb \<Rightarrow> [TokenRefreshCallback cb (accessToken m) (tokenExpiry m)])"
  by (simp add: notify_refresh_def split: option.splits)

lemma authorized_token_request [simp]: "\<not> authorized (Fetch (token_request ps))"
  by (simp add: token_request_def field_def)

lemma map_of_assign_prop [simp]: "map_of (assign_prop k v ps) k = Some v"
  by (induction ps) auto

lemma authorized_api_request [simp]: "authorized (Fetch (api_request url options m))"
  by (simp add: api_request_def Let_def request_init_def field_def spread_def)

lemma attempts_simps [simp]:
  "refresh_attempts [] = 0"
  "refresh_attempts (e # es) = (if e = RefreshAttempt then 1 else 0) + refresh_attempts es"
  "refresh_attempts (es @ es') = refresh_attempts es + refresh_attempts es'"
  "request_attempts [] = 0"
  "request_attempts (e # es) = (if authorized e then 1 else 0) + request_attempts es"
  "request_attempts (es @ es') = request_attempts es + request_attempts es'"
  by (simp_all add: refresh_attempts_def request_attempts_def)

lemma new_events_append: "trace w' = trace w @ es \<Longrightarrow> new_events w w' = es"
  by (simp add: new_events_def)

lemma refreshAccessToken_trace:
  "\<exists>es. trace (snd (snd (refreshAccessToken m w))) = trace w @ RefreshAttempt # es \<and>
        refresh_attempts es = 0 \<and> request_attempts es = 0"
  by (auto simp add: refreshAccessToken_unfold Let_def fetch_eq saveToStorage_trace notify_refresh_trace
      split: if_splits sum.splits prod.splits option.splits)

lemma makeAuthenticatedRequest_trace:
  "\<exists>es. trace (snd (snd (makeAuthenticatedRequest url options m w))) = trace w @ es \<and>
        refresh_attempts es \<le> 1 \<and> request_attempts es \<le> 2"
proof -
  consider "options = JNull" | "options \<noteq> JNull" "\<not> truthy (accessToken m)"
    | "options \<noteq> JNull" "truthy (accessToken m)"
    by blast
  then show ?thesis
  proof cases
    case 1
    then show ?thesis by (simp add: makeAuthenticatedRequest_null)
  next
    case 2
    then show ?thesis by (simp add: makeAuthenticatedRequest_no_token)
  next
    case 3
  then have eq: "makeAuthenticatedRequest url options m w =
     (case next_response w (api_request url options m) of
        Inl e \<Rightarrow> (Inl e, m, console_error ''Authenticated request error:'' e
                    (emit (Fetch (api_request url options m)) w))
      | Inr resp \<Rightarrow>
          if status resp = 401 \<and> truthy (refreshToken m) then
            (case refreshAccessToken m (emit (Fetch (api_request url options m)) w) of
               (Inl e, m2, w2) \<Rightarrow> (Inl e, m2, console_error ''Authenticated request error:'' e w2)
             | (Inr token, m2, w2) \<Rightarrow>
                 (next_response w2 (api_request url options m2), m2,
                  emit (Fetch (api_request url options m2)) w2))
          else (Inr resp, m, emit (Fetch (api_request url options m)) w))"
    by (intro makeAuthenticatedRequest_eq) auto
  let ?w1 = "emit (Fetch (api_request url options m)) w"
  from refreshAccessToken_trace [of m ?w1] obtain es where
    es: "trace (snd (snd (refreshAccessToken m ?w1))) = trace ?w1 @ RefreshAttempt # es"
      "refresh_attempts es = 0" "request_attempts es = 0"
    by blast
  obtain r m2 w2 where rr: "refreshAccessToken m ?w1 = (r, m2, w2)"
    by (cases "refreshAccessToken m ?w1") auto
  with es have w2: "trace w2 = trace w @ Fetch (api_request url options m) # RefreshAttempt # es"
    by simp
  show ?thesis
    unfolding eq using w2 es(2,3) rr
    by (auto split: sum.splits)
  qed
qed

subsection \<open>Evaluation on the example states\<close>

lemma example_later_response:
  "next_response (emit RefreshAttempt (emit (Fetch q'') (example_world (r # r' # rs)))) q = r'"
  "next_response (emit (Fetch q') (emit RefreshAttempt (emit (Fetch q'') (example_world (r # r' # r'' # rs))))) q = r''"
  by (simp_all add: next_response_def example_world_def scripted_def)

lemma example_trace [simp]: "trace (example_world rs) = []"
  by (simp add: example_world_def)

lemma example_refused:
  "refreshAccessToken example_manager
     (emit (Fetch q) (example_world
        [r, Inr \<lparr> status = s, json = Inr (JObj [(''error'', JStr ''invalid_grant'')]) \<rparr>])) =
   (Inl (Error ''invalid_grant''), example_manager,
    console_error ''Token refresh error:'' (Error ''invalid_grant'')
      (emit (Fetch (refresh_request example_manager))
        (emit RefreshAttempt
          (emit (Fetch q) (example_world
            [r, Inr \<lparr> status = s, json = Inr (JObj [(''error'', JStr ''invalid_grant'')]) \<rparr>])))))"
  by (simp add: refreshAccessToken_unfold Let_def fetch_eq example_later_response
      refresh_request_def [symmetric] field_def js_or_def)
     (simp add: example_manager_def)

lemma next_response_notify_refresh [simp]:
  "next_response (notify_refresh m w) r = next_response w r"
  by (simp add: next_response_def notify_refresh_def split: option.splits)

lemma next_response_saveToStorage [simp]:
  "next_response (snd (saveToStorage m w)) r = next_response w r"
  by (auto simp add: next_response_def saveToStorage_def setItem_def Let_def
      split: sum.splits if_splits)

lemma example_clock: "clock (example_world rs) = 1704067200000"
  by (simp add: example_world_def)

lemma example_refreshed:
  "refreshAccessToken example_manager
     (emit (Fetch q) (example_world
        [r, Inr \<lparr> status = s, json = Inr (JObj [(''access_token'', JStr ''AT2''),
                                                  (''expires_in'', JNum (Fin 3600))]) \<rparr>, r''])) =
   (Inr (JStr ''AT2''),
    example_manager\<lparr>accessToken := JStr ''AT2'', tokenExpiry := JStr ''2024-01-01T01:00:00.000Z''\<rparr>,
    notify_refresh
      (example_manager\<lparr>accessToken := JStr ''AT2'', tokenExpiry := JStr ''2024-01-01T01:00:00.000Z''\<rparr>)
      (snd (saveToStorage
        (example_manager\<lparr>accessToken := JStr ''AT2'', tokenExpiry := JStr ''2024-01-01T01:00:00.000Z''\<rparr>)
        (emit (Fetch (refresh_request example_manager))
          (emit RefreshAttempt
            (emit (Fetch q) (example_world
              [r, Inr \<lparr> status = s, json = Inr (JObj [(''access_token'', JStr ''AT2''),
                                                  (''expires_in'', JNum (Fin 3600))]) \<rparr>, r''])))))))"
proof -
  have t: "truthy (refreshToken example_manager)" "truthy (clientId example_manager)"
    "truthy (clientSecret example_manager)"
    by (simp_all add: example_manager_def)
  have ex: "\<And>w. clock w = 1704067200000 \<Longrightarrow>
      expiry_string w (JNum (Fin 3600)) = Inr ''2024-01-01T01:00:00.000Z''"
    by (simp add: expiry_string_def Date_toISOString_def iso_examples)
  show ?thesis
    by (simp add: refreshAccessToken_unfold Let_def fetch_eq example_later_response t
        refresh_request_def [symmetric] field_def ex example_clock)
qed

text \<open>
  C1 as stated fails on the code: when the first answer is a 401 and a refresh
  token is present, but the refresh itself fails, the request is not sent a
  second time and the caller gets the error of the refresh, not a second
  response. Here the token endpoint answers \<^verbatim>\<open>invalid_grant\<close>: one request
  attempt, one refresh attempt, and the call fails.
\<close>

theorem makeAuthenticatedRequest_refresh_failure:
  "next_response (example_world [respond 401 JNull, respond 400 (JObj [(''error'', JStr ''invalid_grant'')])])
     (api_request (JStr ''https://api.example/items'') JUndefined example_manager) =
     Inr \<lparr> status = 401, json = Inr JNull \<rparr> \<and>
   present (refreshToken example_manager) \<and>
   fst (makeAuthenticatedRequest (JStr ''https://api.example/items'') JUndefined example_manager
     (example_world [respond 401 JNull, respond 400 (JObj [(''error'', JStr ''invalid_grant'')])])) =
     Inl (Error ''invalid_grant'') \<and>
   refresh_attempts (trace (snd (snd (makeAuthenticatedRequest (JStr ''https://api.example/items'')
     JUndefined example_manager
     (example_world [respond 401 JNull, respond 400 (JObj [(''error'', JStr ''invalid_grant'')])]))))) = 1 \<and>
   request_attempts (trace (snd (snd (makeAuthenticatedRequest (JStr ''https://api.example/items'')
     JUndefined example_manager
     (example_world [respond 401 JNull, respond 400 (JObj [(''error'', JStr ''invalid_grant'')])]))))) = 1"
proof -
  have t: "truthy (accessToken example_manager)" "truthy (refreshToken example_manager)"
    by (simp_all add: example_manager_def)
  show ?thesis
    by (simp add: makeAuthenticatedRequest_eq t example_refused present_def respond_def
        refresh_request_def)
qed

text \<open>
  C1, amended. No call makes more than one refresh attempt or more than two
  request attempts. For a call whose first request got a response: when the
  status is not 401, or no refresh token is present, that response is returned
  and nothing else is sent; when the status is 401 and a refresh token is
  present, \<^verbatim>\<open>refreshAccessToken\<close> is called once, and if it succeeds the
  request is sent once more with the new token and the outcome of that second
  request is returned whatever it is (two request attempts, one refresh), while
  if it fails its error is thrown to the caller after one request attempt and
  one refresh attempt.
\<close>

theorem makeAuthenticatedRequest_retries_once:
  "refresh_attempts (new_events w (snd (snd (makeAuthenticatedRequest url options m w)))) \<le> 1 \<and>
   request_attempts (new_events w (snd (snd (makeAuthenticatedRequest url options m w)))) \<le> 2 \<and>
   (options \<noteq> JNull \<and> present (accessToken m) \<and>
    next_response w (api_request url options m) = Inr resp \<longrightarrow>
      (status resp \<noteq> 401 \<or> \<not> present (refreshToken m) \<longrightarrow>
         makeAuthenticatedRequest url options m w =
           (Inr resp, m, emit (Fetch (api_request url options m)) w)) \<and>
      (status resp = 401 \<and> present (refreshToken m) \<longrightarrow>
         (\<forall>token m2 w2.
            refreshAccessToken m (emit (Fetch (api_request url options m)) w) = (Inr token, m2, w2) \<longrightarrow>
              makeAuthenticatedRequest url options m w =
                (next_response w2 (api_request url options m2), m2,
                 emit (Fetch (api_request url options m2)) w2) \<and>
              refresh_attempts (new_events w (emit (Fetch (api_request url options m2)) w2)) = 1 \<and>
              request_attempts (new_events w (emit (Fetch (api_request url options m2)) w2)) = 2) \<and>
         (\<forall>e m2 w2.
            refreshAccessToken m (emit (Fetch (api_request url options m)) w) = (Inl e, m2, w2) \<longrightarrow>
              makeAuthenticatedRequest url options m w =
                (Inl e, m2, console_error ''Authenticated request error:'' e w2) \<and>
              refresh_attempts (new_events w (console_error ''Authenticated request error:'' e w2)) = 1 \<and>
              request_attempts (new_events w (console_error ''Authenticated request error:'' e w2)) = 1)))"
proof -
  from makeAuthenticatedRequest_trace [of url options m w] obtain es where
    "trace (snd (snd (makeAuthenticatedRequest url options m w))) = trace w @ es"
    "refresh_attempts es \<le> 1" "request_attempts es \<le> 2"
    by blast
  then have bounds:
    "refresh_attempts (new_events w (snd (snd (makeAuthenticatedRequest url options m w)))) \<le> 1"
    "request_attempts (new_events w (snd (snd (makeAuthenticatedRequest url options m w)))) \<le> 2"
    by (simp_all add: new_events_append)
  have rest: "(status resp \<noteq> 401 \<or> \<not> present (refreshToken m) \<longrightarrow>
         makeAuthenticatedRequest url options m w =
           (Inr resp, m, emit (Fetch (api_request url options m)) w)) \<and>
      (status resp = 401 \<and> present (refreshToken m) \<longrightarrow>
         (\<forall>token m2 w2.
            refreshAccessToken m (emit (Fetch (api_request url options m)) w) = (Inr token, m2, w2) \<longrightarrow>
              makeAuthenticatedRequest url options m w =
                (next_response w2 (api_request url options m2), m2,
                 emit (Fetch (api_request url options m2)) w2) \<and>
              refresh_attempts (new_events w (emit (Fetch (api_request url options m2)) w2)) = 1 \<and>
              request_attempts (new_events w (emit (Fetch (api_request url options m2)) w2)) = 2) \<and>
         (\<forall>e m2 w2.
            refreshAccessToken m (emit (Fetch (api_request url options m)) w) = (Inl e, m2, w2) \<longrightarrow>
              makeAuthenticatedRequest url options m w =
                (Inl e, m2, console_error ''Authenticated request error:'' e w2) \<and>
              refresh_attempts (new_events w (console_error ''Authenticated request error:'' e w2)) = 1 \<and>
              request_attempts (new_events w (console_error ''Authenticated request error:'' e w2)) = 1))"
    if h: "options \<noteq> JNull" "present (accessToken m)"
      "next_response w (api_request url options m) = Inr resp"
  proof -
    let ?w1 = "emit (Fetch (api_request url options m)) w"
    note eq = makeAuthenticatedRequest_eq [OF h(1) h(2) [unfolded present_def], of url w]
    from refreshAccessToken_trace [of m ?w1] obtain es where
      es: "trace (snd (snd (refreshAccessToken m ?w1))) =
             trace w @ Fetch (api_request url options m) # RefreshAttempt # es"
        "refresh_attempts es = 0" "request_attempts es = 0"
      by auto
    have a: "status resp \<noteq> 401 \<or> \<not> present (refreshToken m) \<longrightarrow>
         makeAuthenticatedRequest url options m w = (Inr resp, m, ?w1)"
      unfolding eq h(3) by (auto simp add: present_def)
    have b: "makeAuthenticatedRequest url options m w =
                (next_response w2 (api_request url options m2), m2,
                 emit (Fetch (api_request url options m2)) w2) \<and>
              refresh_attempts (new_events w (emit (Fetch (api_request url options m2)) w2)) = 1 \<and>
              request_attempts (new_events w (emit (Fetch (api_request url options m2)) w2)) = 2"
      if r: "status resp = 401 \<and> present (refreshToken m)"
        "refreshAccessToken m ?w1 = (Inr token, m2, w2)" for token m2 w2
    proof -
      from es r(2) have "trace (emit (Fetch (api_request url options m2)) w2) =
          trace w @ (Fetch (api_request url options m) # RefreshAttempt # es @
                     [Fetch (api_request url options m2)])"
        by simp
      from new_events_append [OF this] es(2,3) r show ?thesis
        unfolding eq h(3) by (simp add: present_def)
    qed
    have c: "makeAuthenticatedRequest url options m w =
                (Inl e, m2, console_error ''Authenticated request error:'' e w2) \<and>
              refresh_attempts (new_events w (console_error ''Authenticated request error:'' e w2)) = 1 \<and>
              request_attempts (new_events w (console_error ''Authenticated request error:'' e w2)) = 1"
      if r: "status resp = 401 \<and> present (refreshToken m)"
        "refreshAccessToken m ?w1 = (Inl e, m2, w2)" for e m2 w2
    proof -
      from es r(2) have "trace (console_error ''Authenticated request error:'' e w2) =
          trace w @ (Fetch (api_request url options m) # RefreshAttempt # es @
                     [ConsoleError ''Authenticated request error:'' e])"
        by simp
      from new_events_append [OF this] es(2,3) r show ?thesis
        unfolding eq h(3) by (simp add: present_def)
    qed
    from a b c show ?thesis by blast
  qed
  from bounds rest show ?thesis by blast
qed

theorem makeAuthenticatedRequest_retries_once_witness:
  "next_response
     (example_world [respond 401 JNull,
        respond 200 (JObj [(''access_token'', JStr ''AT2''), (''expires_in'', JNum (Fin 3600))]),
        respond 401 JNull])
     (api_request (JStr ''https://api.example/items'') JUndefined example_manager) =
     Inr \<lparr> status = 401, json = Inr JNull \<rparr> \<and>
   present (accessToken example_manager) \<and> present (refreshToken example_manager) \<and>
   fst (makeAuthenticatedRequest (JStr ''https://api.example/items'') JUndefined example_manager
     (example_world [respond 401 JNull,
        respond 200 (JObj [(''access_token'', JStr ''AT2''), (''expires_in'', JNum (Fin 3600))]),
        respond 401 JNull])) =
     Inr \<lparr> status = 401, json = Inr JNull \<rparr> \<and>
   accessToken (fst (snd (makeAuthenticatedRequest (JStr ''https://api.example/items'') JUndefined
     example_manager
     (example_world [respond 401 JNull,
        respond 200 (JObj [(''access_token'', JStr ''AT2''), (''expires_in'', JNum (Fin 3600))]),
        respond 401 JNull])))) = JStr ''AT2'' \<and>
   refresh_attempts (new_events
     (example_world [respond 401 JNull,
        respond 200 (JObj [(''access_token'', JStr ''AT2''), (''expires_in'', JNum (Fin 3600))]),
        respond 401 JNull])
     (snd (snd (makeAuthenticatedRequest (JStr ''https://api.example/items'') JUndefined
       example_manager
       (example_world [respond 401 JNull,
          respond 200 (JObj [(''access_token'', JStr ''AT2''), (''expires_in'', JNum (Fin 3600))]),
          respond 401 JNull]))))) = 1 \<and>
   request_attempts (new_events
     (example_world [respond 401 JNull,
        respond 200 (JObj [(''access_token'', JStr ''AT2''), (''expires_in'', JNum (Fin 3600))]),
        respond 401 JNull])
     (snd (snd (makeAuthenticatedRequest (JStr ''https://api.example/items'') JUndefined
       example_manager
       (example_world [respond 401 JNull,
          respond 200 (JObj [(''access_token'', JStr ''AT2''), (''expires_in'', JNum (Fin 3600))]),
          respond 401 JNull]))))) = 2"
proof -
  let ?W = "example_world [respond 401 JNull,
        respond 200 (JObj [(''access_token'', JStr ''AT2''), (''expires_in'', JNum (Fin 3600))]),
        respond 401 JNull]"
  let ?U = "JStr ''https://api.example/items''"
  let ?m2 = "example_manager\<lparr>accessToken := JStr ''AT2'', tokenExpiry := JStr ''2024-01-01T01:00:00.000Z''\<rparr>"
  let ?w2 = "snd (snd (refreshAccessToken example_manager
     (emit (Fetch (api_request ?U JUndefined example_manager)) ?W)))"
  have h: "JUndefined \<noteq> JNull \<and> present (accessToken example_manager) \<and>
      next_response ?W (api_request ?U JUndefined example_manager) = Inr \<lparr> status = 401, json = Inr JNull \<rparr>"
    by (simp add: present_def example_manager_def respond_def)
  have p: "status \<lparr> status = 401, json = Inr JNull \<rparr> = 401 \<and> present (refreshToken example_manager)"
    by (simp add: present_def example_manager_def)
  have r: "refreshAccessToken example_manager
     (emit (Fetch (api_request ?U JUndefined example_manager)) ?W) = (Inr (JStr ''AT2''), ?m2, ?w2)"
    by (simp add: example_refreshed respond_def)
  have n: "next_response ?w2 (api_request ?U JUndefined ?m2) = Inr \<lparr> status = 401, json = Inr JNull \<rparr>"
    by (simp add: example_refreshed respond_def example_later_response)
  from makeAuthenticatedRequest_retries_once [of ?W ?U JUndefined example_manager
      "\<lparr> status = 401, json = Inr JNull \<rparr>"] h p r
  have "makeAuthenticatedRequest ?U JUndefined example_manager ?W =
          (next_response ?w2 (api_request ?U JUndefined ?m2), ?m2,
           emit (Fetch (api_request ?U JUndefined ?m2)) ?w2) \<and>
        refresh_attempts (new_events ?W (emit (Fetch (api_request ?U JUndefined ?m2)) ?w2)) = 1 \<and>
        request_attempts (new_events ?W (emit (Fetch (api_request ?U JUndefined ?m2)) ?w2)) = 2"
    by blast
  with h p n show ?thesis by simp
qed

section \<open>The invariant of access token and expiry\<close>

lemma iso_string_nonempty: "iso_string t \<noteq> []"
  by (simp add: iso_string_def Let_def split: prod.splits)

lemma expiry_string_nonempty: "expiry_string w x = Inr s \<Longrightarrow> s \<noteq> []"
  by (auto simp add: expiry_string_def Date_toISOString_def iso_string_nonempty split: jsnum.splits)

lemma truthy_to_json [simp]: "truthy (to_json v) = truthy v"
  by (cases v) (auto split: jsnum.splits)

lemma refreshAccessToken_keeps_invariant:
  "truthy (accessToken m) \<Longrightarrow> truthy (tokenExpiry m) \<Longrightarrow>
   token_invariant (fst (snd (refreshAccessToken m w)))"
  by (auto simp add: refreshAccessToken_unfold Let_def fetch_eq expiry_string_nonempty
      token_invariant_def present_def
      split: if_splits sum.splits prod.splits)

lemma refreshAccessToken_invariant:
  assumes "refreshAccessToken m w = (Inr token, m', w')"
  shows "token_invariant m'"
proof -
  from refreshAccessToken_success [OF assms] obtain data expiry where
    "truthy token" "expiry_string w (field data ''expires_in'') = Inr expiry"
    "m' = m\<lparr>accessToken := token, tokenExpiry := JStr expiry\<rparr>"
    by blast
  then show ?thesis
    by (simp add: token_invariant_def present_def expiry_string_nonempty)
qed

lemma exchangeCodeForTokens_invariant:
  assumes "exchangeCodeForTokens code uri m w = (Inr tokens, m', w')"
  shows "token_invariant m'"
proof -
  from exchangeCodeForTokens_success [OF assms] obtain data expiry where
    "truthy (field data ''access_token'')" "expiry_string w (field data ''expires_in'') = Inr expiry"
    "m' = m\<lparr>accessToken := field data ''access_token'',
                  refreshToken := field data ''refresh_token'',
                  tokenExpiry := JStr expiry\<rparr>"
    by blast
  then show ?thesis
    by (simp add: token_invariant_def present_def expiry_string_nonempty)
qed

lemma handleAuthCallback_invariant:
  assumes "handleAuthCallback uri m w = (Inr b, m', w')" "token_invariant m"
  shows "token_invariant m'"
  using assms
  by (auto simp add: handleAuthCallback_def Let_def exchangeCodeForTokens_invariant
      split: if_splits sum.splits prod.splits)

lemma makeAuthenticatedRequest_invariant:
  assumes "token_invariant m"
  shows "token_invariant (fst (snd (makeAuthenticatedRequest url options m w)))"
proof -
  consider "options = JNull" | "options \<noteq> JNull" "\<not> truthy (accessToken m)"
    | "options \<noteq> JNull" "truthy (accessToken m)"
    by blast
  then show ?thesis
  proof cases
    case 1
    with assms show ?thesis by (simp add: makeAuthenticatedRequest_null)
  next
    case 2
    with assms show ?thesis by (simp add: makeAuthenticatedRequest_no_token)
  next
    case 3
    let ?w1 = "emit (Fetch (api_request url options m)) w"
    note eq = makeAuthenticatedRequest_eq [OF 3, of url w]
    from assms 3(2) have "truthy (tokenExpiry m)"
      by (simp add: token_invariant_def present_def)
    with 3(2) have k: "token_invariant (fst (snd (refreshAccessToken m ?w1)))"
      by (rule refreshAccessToken_keeps_invariant)
    obtain r m2 w2 where rr: "refreshAccessToken m ?w1 = (r, m2, w2)"
      by (cases "refreshAccessToken m ?w1") auto
    with k have "token_invariant m2" by simp
    with assms rr show ?thesis
      unfolding eq by (auto split: sum.splits)
  qed
qed

lemma loadFromStorage_False:
  "fst (loadFromStorage m w) = False \<Longrightarrow> fst (snd (loadFromStorage m w)) = m"
  by (auto simp add: loadFromStorage_def split: option.splits if_splits sum.splits)

lemma loadFromStorage_invariant:
  assumes "token_invariant m"
    and "getItem (ToString (storageKey m)) w = Some (JsonText data)"
    and "present (field data ''accessToken'') = present (field data ''tokenExpiry'')"
  shows "token_invariant (fst (snd (loadFromStorage m w)))"
  using assms
  by (cases "get_prop data ''clientId''")
     (auto simp add: loadFromStorage_def token_invariant_def present_def js_or_def)

text \<open>
  C6 as stated fails on the code: \<^verbatim>\<open>loadFromStorage\<close> takes each field of the
  stored record on its own. From a stored record with an access token and no
  expiry, the freshly constructed manager ends with \<open>accessToken\<close> set and
  \<open>tokenExpiry\<close> \<open>null\<close>.
\<close>

theorem loadFromStorage_breaks_token_invariant:
  "token_invariant (fst (new_OAuthTokenManager example_config (example_world []))) \<and>
   \<not> token_invariant (fst (snd (loadFromStorage
        (fst (new_OAuthTokenManager example_config (example_world [])))
        ((example_world [])\<lparr>localStorage :=
            [''oauth_tokens'' \<mapsto> JsonText (JObj [(''accessToken'', JStr ''AT1'')])]\<rparr>)))) \<and>
   accessToken (fst (snd (loadFromStorage
        (fst (new_OAuthTokenManager example_config (example_world [])))
        ((example_world [])\<lparr>localStorage :=
            [''oauth_tokens'' \<mapsto> JsonText (JObj [(''accessToken'', JStr ''AT1'')])]\<rparr>)))) = JStr ''AT1'' \<and>
   tokenExpiry (fst (snd (loadFromStorage
        (fst (new_OAuthTokenManager example_config (example_world [])))
        ((example_world [])\<lparr>localStorage :=
            [''oauth_tokens'' \<mapsto> JsonText (JObj [(''accessToken'', JStr ''AT1'')])]\<rparr>)))) = JNull"
  by (simp add: new_OAuthTokenManager_def startTokenExpiryCheck_def setInterval_def Let_def
      example_config_def example_world_def loadFromStorage_def getItem_def js_or_def field_def
      token_invariant_def present_def)

text \<open>
  C6, amended. The invariant holds in the constructed state and after
  \<^verbatim>\<open>clearTokens\<close>; it holds after every \<^verbatim>\<open>exchangeCodeForTokens\<close> and
  every \<^verbatim>\<open>refreshAccessToken\<close> that returns a result; and a manager that
  satisfies it still does after \<^verbatim>\<open>updateCredentials\<close>, after starting or
  stopping the expiry check, after \<^verbatim>\<open>makeAuthenticatedRequest\<close>, after a
  \<^verbatim>\<open>handleAuthCallback\<close> that returns, and after \<^verbatim>\<open>loadFromStorage\<close>
  when nothing is loaded or when the stored record has \<open>accessToken\<close> and
  \<open>tokenExpiry\<close> both present or both absent, as every record has that
  \<^verbatim>\<open>saveToStorage\<close> wrote for a manager satisfying the invariant.
  (\<^verbatim>\<open>checkTokenExpiry\<close>, \<^verbatim>\<open>getStatus\<close>, \<^verbatim>\<open>getAuthHeaders\<close> and
  \<^verbatim>\<open>saveToStorage\<close> assign no field.)
\<close>

theorem token_invariant_preserved:
  "token_invariant (fst (new_OAuthTokenManager cfg w)) \<and>
   token_invariant (fst (clearTokens m w)) \<and>
   (\<forall>tokens m' w'. exchangeCodeForTokens code redirectUri m w = (Inr tokens, m', w') \<longrightarrow>
      token_invariant m') \<and>
   (\<forall>token m' w'. refreshAccessToken m w = (Inr token, m', w') \<longrightarrow> token_invariant m') \<and>
   (token_invariant m \<longrightarrow>
      token_invariant (fst (updateCredentials cid secret m w)) \<and>
      token_invariant (fst (startTokenExpiryCheck ms m w)) \<and>
      token_invariant (fst (stopTokenExpiryCheck m w)) \<and>
      token_invariant (fst (snd (makeAuthenticatedRequest url options m w))) \<and>
      (\<forall>b m' w'. handleAuthCallback redirectUri m w = (Inr b, m', w') \<longrightarrow> token_invariant m') \<and>
      (fst (loadFromStorage m w) = False \<longrightarrow> fst (snd (loadFromStorage m w)) = m) \<and>
      (\<forall>data. getItem (ToString (storageKey m)) w = Some (JsonText data) \<and>
               present (field data ''accessToken'') = present (field data ''tokenExpiry'') \<longrightarrow>
               token_invariant (fst (snd (loadFromStorage m w)))) \<and>
      (\<forall>m0. token_invariant m0 \<and>
             getItem (ToString (storageKey m)) w = Some (JsonText (to_json (stored_record m0))) \<longrightarrow>
             token_invariant (fst (snd (loadFromStorage m w)))))"
proof (intro conjI impI allI)
  show "token_invariant (fst (new_OAuthTokenManager cfg w))"
    by (simp add: new_OAuthTokenManager_def startTokenExpiryCheck_def Let_def token_invariant_def
        present_def split: prod.splits)
  show "token_invariant (fst (clearTokens m w))"
    by (simp add: clearTokens_def Let_def token_invariant_def present_def)
next
  fix tokens m' w'
  assume "exchangeCodeForTokens code redirectUri m w = (Inr tokens, m', w')"
  then show "token_invariant m'" by (rule exchangeCodeForTokens_invariant)
next
  fix token m' w'
  assume "refreshAccessToken m w = (Inr token, m', w')"
  then show "token_invariant m'" by (rule refreshAccessToken_invariant)
next
  assume inv: "token_invariant m"
  then show "token_invariant (fst (updateCredentials cid secret m w))"
    by (simp add: updateCredentials_def Let_def token_invariant_def)
  from inv show "token_invariant (fst (startTokenExpiryCheck ms m w))"
    by (simp add: startTokenExpiryCheck_def Let_def token_invariant_def split: prod.splits)
  from inv show "token_invariant (fst (stopTokenExpiryCheck m w))"
    by (simp add: stopTokenExpiryCheck_def token_invariant_def split: option.splits)
  from inv show "token_invariant (fst (snd (makeAuthenticatedRequest url options m w)))"
    by (rule makeAuthenticatedRequest_invariant)
  { fix b m' w'
    assume "handleAuthCallback redirectUri m w = (Inr b, m', w')"
    then show "token_invariant m'" using inv by (rule handleAuthCallback_invariant) }
  { assume "fst (loadFromStorage m w) = False"
    then show "fst (snd (loadFromStorage m w)) = m" by (rule loadFromStorage_False) }
  { fix data
    assume "getItem (ToString (storageKey m)) w = Some (JsonText data) \<and>
            present (field data ''accessToken'') = present (field data ''tokenExpiry'')"
    with inv show "token_invariant (fst (snd (loadFromStorage m w)))"
      by (simp add: loadFromStorage_invariant) }
  { fix m0
    assume "token_invariant m0 \<and>
          getItem (ToString (storageKey m)) w = Some (JsonText (to_json (stored_record m0)))"
    with inv show "token_invariant (fst (snd (loadFromStorage m w)))"
      by (intro loadFromStorage_invariant [of m w "to_json (stored_record m0)"])
         (simp_all add: token_invariant_def present_def) }
qed

theorem token_invariant_preserved_witness:
  "token_invariant example_manager \<and>
   token_invariant (fst (new_OAuthTokenManager example_config (example_world []))) \<and>
   token_invariant (fst (clearTokens example_manager (example_world []))) \<and>
   token_invariant (fst (snd (makeAuthenticatedRequest (JStr ''https://api.example/items'') JUndefined
      example_manager (example_world [])))) \<and>
   getItem (ToString (storageKey example_manager))
     (snd (saveToStorage example_manager (example_world []))) =
     Some (JsonText (to_json (stored_record example_manager))) \<and>
   token_invariant (fst (snd (loadFromStorage example_manager
     (snd (saveToStorage example_manager (example_world []))))))"
proof -
  have inv: "token_invariant example_manager"
    by (simp add: token_invariant_def present_def example_manager_def)
  have st: "getItem (ToString (storageKey example_manager))
     (snd (saveToStorage example_manager (example_world []))) =
     Some (JsonText (to_json (stored_record example_manager)))"
    by (simp add: getItem_def saveToStorage_storage example_world_def)
  note a = token_invariant_preserved [of example_config "example_world []" example_manager
      JNull JNull JNull JNull JUndefined "JStr ''https://api.example/items''" JUndefined]
  note b = token_invariant_preserved [of example_config
      "snd (saveToStorage example_manager (example_world []))" example_manager
      JNull JNull JNull JNull JUndefined "JStr ''https://api.example/items''" JUndefined]
  from a have 1: "token_invariant (fst (new_OAuthTokenManager example_config (example_world [])))"
    and 2: "token_invariant (fst (clearTokens example_manager (example_world [])))"
    by simp_all
  from a inv have 3: "token_invariant (fst (snd (makeAuthenticatedRequest
      (JStr ''https://api.example/items'') JUndefined example_manager (example_world []))))"
    by simp
  from b inv st have 4: "token_invariant (fst (snd (loadFromStorage example_manager
     (snd (saveToStorage example_manager (example_world []))))))"
    by blast
  from inv 1 2 3 st 4 show ?thesis by simp
qed

text \<open>
  What the amended statement leaves out: an exchange or a refresh whose answer
  has an access token and no \<^verbatim>\<open>expires_in\<close> fails in \<^verbatim>\<open>toISOString\<close>
  after \<open>accessToken\<close> was assigned, and writes nothing to the storage.
\<close>

lemma exchangeCodeForTokens_partial_update:
  "fst (exchangeCodeForTokens (JStr ''code123'') JUndefined
          (fst (new_OAuthTokenManager example_config (example_world [])))
          (example_world [respond 200 (JObj [(''access_token'', JStr ''AT1'')])])) =
     Inl (RangeError ''Invalid time value'') \<and>
   accessToken (fst (snd (exchangeCodeForTokens (JStr ''code123'') JUndefined
          (fst (new_OAuthTokenManager example_config (example_world [])))
          (example_world [respond 200 (JObj [(''access_token'', JStr ''AT1'')])])))) = JStr ''AT1'' \<and>
   tokenExpiry (fst (snd (exchangeCodeForTokens (JStr ''code123'') JUndefined
          (fst (new_OAuthTokenManager example_config (example_world [])))
          (example_world [respond 200 (JObj [(''access_token'', JStr ''AT1'')])])))) = JNull"
  by (simp add: new_OAuthTokenManager_def startTokenExpiryCheck_def setInterval_def Let_def
      example_config_def exchangeCodeForTokens_def fetch_eq respond_def js_or_def field_def
      expiry_string_def Date_toISOString_def)

lemma refreshAccessToken_partial_update:
  "fst (refreshAccessToken example_manager
          (example_world [respond 200 (JObj [(''access_token'', JStr ''AT2'')])])) =
     Inl (RangeError ''Invalid time value'') \<and>
   accessToken (fst (snd (refreshAccessToken example_manager
          (example_world [respond 200 (JObj [(''access_token'', JStr ''AT2'')])])))) = JStr ''AT2'' \<and>
   tokenExpiry (fst (snd (refreshAccessToken example_manager
          (example_world [respond 200 (JObj [(''access_token'', JStr ''AT2'')])])))) =
     JStr ''2024-01-01T00:02:00.000Z'' \<and>
   localStorage (snd (snd (refreshAccessToken example_manager
          (example_world [respond 200 (JObj [(''access_token'', JStr ''AT2'')])])))) ''oauth_tokens'' = None"
  by (simp add: refreshAccessToken_unfold Let_def fetch_eq respond_def field_def
      expiry_string_def Date_toISOString_def example_manager_def)
     (simp add: example_world_def)

end
